theory Spec2Isabelle
  imports Complex_Main "HOL-Library.Word" "HOL-Library.Log_Nat"
    "HOL-Library.Char_ord" "HOL-Library.List_Lexorder"
begin

unbundle bit_operations_syntax

section \<open>Values\<close>

text \<open>
  A value of the expression language is a Go \<^verbatim>\<open>interface{}\<close>. The shapes the engine
  tells apart are nil, bool, float64, string, \<^verbatim>\<open>[]interface{}\<close>,
  \<^verbatim>\<open>map[string]interface{}\<close> and \<^verbatim>\<open>time.Time\<close>; every other host value is opaque.

  A float64 is modelled by the number it denotes: \<open>Fin q\<close> is the finite float64 of value
  \<open>q\<close> (both zeros are \<open>Fin 0\<close>), next to the two infinities and NaN. The type does not
  exclude rationals that no float64 denotes; where a result depends on rounding, the
  rounding is written out.

  A slice and a map are reference values, and \<^verbatim>\<open>reflect.DeepEqual\<close> looks at the reference:
  \<^item> \<open>VSeq p xs\<close> is the \<^verbatim>\<open>[]interface{}\<close> whose data pointer is \<open>p\<close> and whose elements are
    \<open>xs\<close>. The nil slice is \<open>VSeq None []\<close>; a slice that is not nil has \<open>p = Some a\<close>,
    \<open>a\<close> the address of its first entry, and the empty slice \<^verbatim>\<open>[]interface{}{}\<close> is
    \<open>VSeq (Some a) []\<close>. As an interface value neither is \<open>VNil\<close>.
  \<^item> \<open>VMap p m\<close> is the \<^verbatim>\<open>map[string]interface{}\<close> whose map object is \<open>p\<close> and whose
    entries are \<open>m\<close>, a list with distinct keys. The nil map is \<open>VMap None []\<close>.
  \<^item> \<open>VTime t\<close> is a \<^verbatim>\<open>time.Time\<close>; two of them have the same code exactly when
    \<^verbatim>\<open>reflect.DeepEqual\<close> finds them equal.
  \<^item> \<open>VOpaque h r\<close> is a host value of any other dynamic type. \<open>r\<close> tells whether
    \<^verbatim>\<open>reflect.DeepEqual\<close> finds the value equal to itself: it does not for a func that is
    not nil, nor for a NaN of a named float type, nor for a struct or an array that holds
    one of these, and such a value is deep-equal to no value at all. Among the others,
    \<open>h\<close> is the class of the value under \<^verbatim>\<open>reflect.DeepEqual\<close>.
  The type does not exclude a nil slice or a nil map with entries, nor two slices of one
  data pointer and one length with different elements; no Go value is one.
\<close>

datatype float64 = Fin rat | PInf | NInf | NaN

type_synonym time = int

type_synonym pointer = "nat option"

datatype val =
    VNil
  | VBool bool
  | VNum float64
  | VStr string
  | VSeq pointer "val list"
  | VMap pointer "(string \<times> val) list"
  | VTime time
  | VOpaque nat bool

datatype error =
    TypeError string
  | FunctionError string
  | SyntaxError string
  | UnknownOperator string
  | OutOfFuel

type_synonym result = "error + val"

text \<open>Go's \<^verbatim>\<open>==\<close> on float64: NaN is equal to nothing, itself included.\<close>

fun float64_eq :: "float64 \<Rightarrow> float64 \<Rightarrow> bool" where
  "float64_eq (Fin a) (Fin b) = (a = b)"
| "float64_eq PInf PInf = True"
| "float64_eq NInf NInf = True"
| "float64_eq _ _ = False"

text \<open>
  \<^verbatim>\<open>reflect.DeepEqual\<close> of package \<^verbatim>\<open>reflect\<close>, on values. Two nil interfaces are equal, a
  nil interface and a value are not, and values of different dynamic types are not. Then
  bool, float64 and string are compared by \<^verbatim>\<open>==\<close>. For slices,
  \<^verbatim>\<open>
  if v1.IsNil() != v2.IsNil() { return false }
  if v1.Len() != v2.Len() { return false }
  if v1.UnsafePointer() == v2.UnsafePointer() { return true }
  for i := 0; i < v1.Len(); i++ {
      if !deepValueEqual(v1.Index(i), v2.Index(i), visited) { return false }
  }
  return true
  \<close>
  so the nil slice and an empty slice are not equal, and a slice is equal to itself
  whatever it holds. Maps are compared in the same way, key by key: every key of the
  first has to be a key of the second, with a deep-equal value.
\<close>

fun DeepEqual :: "val \<Rightarrow> val \<Rightarrow> bool" where
  "DeepEqual VNil VNil = True"
| "DeepEqual (VBool a) (VBool b) = (a = b)"
| "DeepEqual (VNum a) (VNum b) = float64_eq a b"
| "DeepEqual (VStr a) (VStr b) = (a = b)"
| "DeepEqual (VSeq p xs) (VSeq q ys) =
     (if (p = None) \<noteq> (q = None) then False
      else if length xs \<noteq> length ys then False
      else if p = q then True
      else list_all2 DeepEqual xs ys)"
| "DeepEqual (VMap p m) (VMap q n) =
     (if (p = None) \<noteq> (q = None) then False
      else if length m \<noteq> length n then False
      else if p = q then True
      else list_all (\<lambda>(k, v). case map_of n k of None \<Rightarrow> False | Some w \<Rightarrow> DeepEqual v w) m)"
| "DeepEqual (VTime a) (VTime b) = (a = b)"
| "DeepEqual (VOpaque a r) (VOpaque b r') = (r \<and> r' \<and> a = b)"
| "DeepEqual _ _ = False"

section \<open>The operators of Base: \<^verbatim>\<open>==\<close> and \<^verbatim>\<open>!=\<close>\<close>

text \<open>
  \<^verbatim>\<open>
  InfixOperator("==", func(a, b interface{}) (interface{}, error) {
      aa, ok := a.([]interface{})
      if !ok { return reflect.DeepEqual(a, b), nil }
      for _, x := range aa {
          if reflect.DeepEqual(x, b) { return true, nil }
      }
      return false, nil
  })
  \<close>
  and the same for \<^verbatim>\<open>!=\<close> with \<^verbatim>\<open>!reflect.DeepEqual\<close> in both places. The type
  assertion holds for every \<^verbatim>\<open>[]interface{}\<close>, the nil slice included, over which the loop
  does not iterate. The two loops:
\<close>

fun eq_range :: "val list \<Rightarrow> val \<Rightarrow> bool" where
  "eq_range [] b = False"
| "eq_range (x # aa) b = (if DeepEqual x b then True else eq_range aa b)"

fun ne_range :: "val list \<Rightarrow> val \<Rightarrow> bool" where
  "ne_range [] b = False"
| "ne_range (x # aa) b = (if \<not> DeepEqual x b then True else ne_range aa b)"

definition base_eq :: "val \<Rightarrow> val \<Rightarrow> result" where
  "base_eq a b =
     (case a of
        VSeq p aa \<Rightarrow> Inr (VBool (eq_range aa b))
      | _ \<Rightarrow> Inr (VBool (DeepEqual a b)))"

definition base_ne :: "val \<Rightarrow> val \<Rightarrow> result" where
  "base_ne a b =
     (case a of
        VSeq p aa \<Rightarrow> Inr (VBool (ne_range aa b))
      | _ \<Rightarrow> Inr (VBool (\<not> DeepEqual a b)))"

section \<open>What gval.go takes from elsewhere\<close>

text \<open>
  gval.go defines the built-in languages as data. It calls into the Go runtime and
  standard library (float64 arithmetic, \<^verbatim>\<open>math\<close>, \<^verbatim>\<open>strconv\<close>, \<^verbatim>\<open>time\<close>,
  \<^verbatim>\<open>text/scanner\<close>) and into parser extensions of the package that are defined in
  other files. What is not modelled here is a field of one record, and every language is
  defined for an arbitrary such record: a property holds for whatever these functions
  compute, or names what it needs of them.

  \<open>'s\<close> is the state of the host: what a host function may read and change when an
  expression calls it.
\<close>

datatype token =
    TIdent string
  | TInt string
  | TFloat string
  | TString string
  | TChar string
  | TRawString string
  | TPunct char
  | TEOF

type_synonym 's evaluable = "val \<Rightarrow> 's \<Rightarrow> result \<times> 's"
type_synonym 's parsed = "error + ('s evaluable \<times> token list)"
type_synonym 's subparser = "nat \<Rightarrow> token list \<Rightarrow> 's parsed"
type_synonym 's prefix_handler = "'s subparser \<Rightarrow> token \<Rightarrow> token list \<Rightarrow> 's parsed"
type_synonym 's postfix_handler = "'s subparser \<Rightarrow> 's evaluable \<Rightarrow> token list \<Rightarrow> 's parsed"
type_synonym 's eval_operator = "'s evaluable \<Rightarrow> 's evaluable \<Rightarrow> error + 's evaluable"

record 's externals =
  fadd :: "float64 \<Rightarrow> float64 \<Rightarrow> float64"
  fsub :: "float64 \<Rightarrow> float64 \<Rightarrow> float64"
  fmul :: "float64 \<Rightarrow> float64 \<Rightarrow> float64"
  fdiv :: "float64 \<Rightarrow> float64 \<Rightarrow> float64"
  Mod :: "float64 \<Rightarrow> float64 \<Rightarrow> float64"
  Pow :: "float64 \<Rightarrow> float64 \<Rightarrow> float64"
  int64_unrepresentable :: "float64 \<Rightarrow> 64 word"
  uint64_unrepresentable :: "float64 \<Rightarrow> 64 word"
  ParseFloat :: "string \<Rightarrow> float64 option"
  ParseInLocation :: "string \<Rightarrow> string \<Rightarrow> time option"
  opaque_number :: "nat \<Rightarrow> float64 option"
  scan :: "string \<Rightarrow> token list"
  parseString :: "'s prefix_handler"
  parseJSONArray :: "'s prefix_handler"
  parseJSONObject :: "'s prefix_handler"
  parseIdent :: "'s prefix_handler"
  regEx :: "'s eval_operator"
  notRegEx :: "'s eval_operator"

section \<open>Conversions\<close>

text \<open>Go's order on float64: every comparison with NaN is false.\<close>

fun float64_less :: "float64 \<Rightarrow> float64 \<Rightarrow> bool" where
  "float64_less (Fin a) (Fin b) = (a < b)"
| "float64_less NInf (Fin b) = True"
| "float64_less NInf PInf = True"
| "float64_less (Fin a) PInf = True"
| "float64_less _ _ = False"

definition float64_le :: "float64 \<Rightarrow> float64 \<Rightarrow> bool" where
  "float64_le a b = (float64_less a b \<or> float64_eq a b)"

text \<open>
  The conversion \<^verbatim>\<open>int64(a)\<close> of a float64 discards the fraction (truncation towards
  zero). Where the truncated value is no int64, and for the infinities and NaN, the
  conversion still returns, and the Go specification leaves the value to the
  implementation: field \<open>int64_unrepresentable\<close>. The same for \<^verbatim>\<open>uint64(b)\<close>.
\<close>

definition trunc :: "rat \<Rightarrow> int" where
  "trunc q = (if q < 0 then - \<lfloor>- q\<rfloor> else \<lfloor>q\<rfloor>)"

definition int64 :: "'s externals \<Rightarrow> float64 \<Rightarrow> 64 word" where
  "int64 ex a =
     (case a of
        Fin q \<Rightarrow>
          if - (2 ^ 63) \<le> trunc q \<and> trunc q < 2 ^ 63 then word_of_int (trunc q)
          else int64_unrepresentable ex a
      | _ \<Rightarrow> int64_unrepresentable ex a)"

definition uint64 :: "'s externals \<Rightarrow> float64 \<Rightarrow> 64 word" where
  "uint64 ex b =
     (case b of
        Fin q \<Rightarrow>
          if 0 \<le> trunc q \<and> trunc q < 2 ^ 64 then word_of_int (trunc q)
          else uint64_unrepresentable ex b
      | _ \<Rightarrow> uint64_unrepresentable ex b)"

text \<open>
  The conversion \<^verbatim>\<open>float64(i)\<close> of an int64 rounds to the nearest float64, ties to the
  even significand. A float64 has 53 significant bits: \<open>round53 i\<close> is the nearest integer
  that has at most 53 of them. (Every int64 is far below the largest float64.)
\<close>

definition round53 :: "int \<Rightarrow> int" where
  "round53 i =
     (let m = \<bar>i\<bar>; e = nat (bitlen m - 53) in
      if e = 0 then i
      else
        let q = m div 2 ^ e; r = m mod 2 ^ e; half = 2 ^ (e - 1);
            q' = (if half < r \<or> (r = half \<and> odd q) then q + 1 else q)
        in sgn i * (q' * 2 ^ e))"

definition float64_of_int64 :: "64 word \<Rightarrow> float64" where
  "float64_of_int64 w = Fin (of_int (round53 (sint w)))"

text \<open>
  Modelled from the spec: \<^verbatim>\<open>convertToFloat\<close> and \<^verbatim>\<open>convertToBool\<close> are called in
  gval.go and defined in another file. Section 4.B: toNumber accepts number types, parses
  strings, and takes true to 1 and false to 0; toBool passes a boolean, takes a number
  other than 0 to true, and reads the strings "true", "TRUE", "false" and "FALSE".
\<close>

definition convertToFloat :: "'s externals \<Rightarrow> val \<Rightarrow> float64 option" where
  "convertToFloat ex v =
     (case v of
        VNum f \<Rightarrow> Some f
      | VStr s \<Rightarrow> ParseFloat ex s
      | VBool b \<Rightarrow> Some (if b then Fin 1 else Fin 0)
      | VOpaque h r \<Rightarrow> opaque_number ex h
      | _ \<Rightarrow> None)"

definition convertToBool :: "val \<Rightarrow> bool option" where
  "convertToBool v =
     (case v of
        VBool b \<Rightarrow> Some b
      | VNum f \<Rightarrow> Some (\<not> float64_eq f (Fin 0))
      | VStr s \<Rightarrow>
          if s = ''true'' \<or> s = ''TRUE'' then Some True
          else if s = ''false'' \<or> s = ''FALSE'' then Some False
          else None
      | _ \<Rightarrow> None)"

section \<open>The operators of Full: \<^verbatim>\<open>??\<close>, \<^verbatim>\<open>in\<close> and \<^verbatim>\<open>date\<close>\<close>

text \<open>
  \<^verbatim>\<open>
  InfixShortCircuit("??", func(a interface{}) (interface{}, bool) {
      return a, a != false && a != nil
  }),
  InfixOperator("??", func(a, b interface{}) (interface{}, error) {
      if a == false || a == nil { return b, nil }
      return a, nil
  }),
  \<close>
  An interface value is \<^verbatim>\<open>== false\<close> when it holds the bool false, and \<^verbatim>\<open>== nil\<close>
  when it holds nothing.
\<close>

definition coalesce_shortcircuit :: "val \<Rightarrow> val \<times> bool" where
  "coalesce_shortcircuit a = (a, a \<noteq> VBool False \<and> a \<noteq> VNil)"

definition coalesce :: "val \<Rightarrow> val \<Rightarrow> result" where
  "coalesce a b = (if a = VBool False \<or> a = VNil then Inr b else Inr a)"

text \<open>
  Modelled from the spec: \<^verbatim>\<open>inArray\<close> is named in gval.go and defined in another file.
  Section 4.E: \<^verbatim>\<open>a in b\<close> is true iff b is an ordered sequence and at least one element
  is structurally equal to a.
\<close>

definition inArray :: "val \<Rightarrow> val \<Rightarrow> result" where
  "inArray a b =
     (case b of
        VSeq p bb \<Rightarrow> Inr (VBool (list_ex (\<lambda>x. DeepEqual a x) bb))
      | _ \<Rightarrow> Inr (VBool False))"

text \<open>The layouts of package \<^verbatim>\<open>time\<close> that \<^verbatim>\<open>date\<close> names, with their values there.\<close>

definition ANSIC :: string where "ANSIC = ''Mon Jan _2 15:04:05 2006''"
definition UnixDate :: string where "UnixDate = ''Mon Jan _2 15:04:05 MST 2006''"
definition RubyDate :: string where "RubyDate = ''Mon Jan 02 15:04:05 -0700 2006''"
definition Kitchen :: string where "Kitchen = ''3:04PM''"
definition RFC3339 :: string where "RFC3339 = ''2006-01-02T15:04:05Z07:00''"
definition RFC3339Nano :: string where "RFC3339Nano = ''2006-01-02T15:04:05.999999999Z07:00''"

definition date_formats :: "string list" where
  "date_formats =
     [ANSIC, UnixDate, RubyDate, Kitchen, RFC3339, RFC3339Nano,
      ''2006-01-02'',
      ''2006-01-02 15:04'',
      ''2006-01-02 15:04:05'',
      ''2006-01-02 15:04:05-07:00'',
      ''2006-01-02T15Z0700'',
      ''2006-01-02T15:04Z0700'',
      ''2006-01-02T15:04:05Z0700'',
      ''2006-01-02T15:04:05.999999999Z0700'']"

text \<open>
  The loop of \<^verbatim>\<open>date\<close> over the formats: the first format that
  \<^verbatim>\<open>time.ParseInLocation(format, s, time.Local)\<close> accepts ends it.
\<close>

fun date_range :: "(string \<Rightarrow> string \<Rightarrow> time option) \<Rightarrow> string list \<Rightarrow> string \<Rightarrow> time option" where
  "date_range parse [] s = None"
| "date_range parse (format # formats) s =
     (case parse format s of
        Some ret \<Rightarrow> Some ret
      | None \<Rightarrow> date_range parse formats s)"

definition date :: "'s externals \<Rightarrow> val list \<Rightarrow> result" where
  "date ex arguments =
     (case arguments of
        [VStr s] \<Rightarrow>
          (case date_range (ParseInLocation ex) date_formats s of
             Some ret \<Rightarrow> Inr (VTime ret)
           | None \<Rightarrow> Inl (FunctionError (''date() could not parse '' @ s)))
      | _ \<Rightarrow> Inl (FunctionError ''date() expects exactly one string argument''))"

section \<open>The operators of Bitmask\<close>

text \<open>
  \<^verbatim>\<open>
  InfixNumberOperator("^",  func(a, b float64) (interface{}, error) { return float64(int64(a) ^ int64(b)), nil }),
  InfixNumberOperator("&",  ... float64(int64(a) & int64(b)) ...
  InfixNumberOperator("|",  ... float64(int64(a) | int64(b)) ...
  InfixNumberOperator("<<", ... float64(int64(a) << uint64(b)) ...
  InfixNumberOperator(">>", ... float64(int64(a) >> uint64(b)) ...
  PrefixOperator("~", func(c context.Context, v interface{}) (interface{}, error) {
      i, ok := convertToFloat(v)
      if !ok { return nil, fmt.Errorf("unexpected %T expected number", v) }
      return float64(^int64(i)), nil
  }),
  \<close>
  Go's shifts of an int64 by a uint64 count: \<^verbatim>\<open><<\<close> fills with zeros and is 0 from a
  count of 64 on; \<^verbatim>\<open>>>\<close> copies the sign bit.
\<close>

definition bitmask_xor :: "'s externals \<Rightarrow> float64 \<Rightarrow> float64 \<Rightarrow> result" where
  "bitmask_xor ex a b = Inr (VNum (float64_of_int64 (int64 ex a XOR int64 ex b)))"

definition bitmask_and :: "'s externals \<Rightarrow> float64 \<Rightarrow> float64 \<Rightarrow> result" where
  "bitmask_and ex a b = Inr (VNum (float64_of_int64 (int64 ex a AND int64 ex b)))"

definition bitmask_or :: "'s externals \<Rightarrow> float64 \<Rightarrow> float64 \<Rightarrow> result" where
  "bitmask_or ex a b = Inr (VNum (float64_of_int64 (int64 ex a OR int64 ex b)))"

definition bitmask_shl :: "'s externals \<Rightarrow> float64 \<Rightarrow> float64 \<Rightarrow> result" where
  "bitmask_shl ex a b = Inr (VNum (float64_of_int64 (push_bit (unat (uint64 ex b)) (int64 ex a))))"

definition bitmask_shr :: "'s externals \<Rightarrow> float64 \<Rightarrow> float64 \<Rightarrow> result" where
  "bitmask_shr ex a b =
     Inr (VNum (float64_of_int64 (signed_drop_bit (unat (uint64 ex b)) (int64 ex a))))"

definition bitmask_not :: "'s externals \<Rightarrow> val \<Rightarrow> result" where
  "bitmask_not ex v =
     (case convertToFloat ex v of
        None \<Rightarrow> Inl (TypeError ''unexpected type, expected number'')
      | Some i \<Rightarrow> Inr (VNum (float64_of_int64 (NOT (int64 ex i)))))"

section \<open>The operators of PropositionalLogic and of Base\<close>

text \<open>
  \<^verbatim>\<open>
  InfixShortCircuit("&&", func(a interface{}) (interface{}, bool) { return false, a == false }),
  InfixShortCircuit("||", func(a interface{}) (interface{}, bool) { return true, a == true }),
  \<close>
\<close>

definition and_shortcircuit :: "val \<Rightarrow> val \<times> bool" where
  "and_shortcircuit a = (VBool False, a = VBool False)"

definition or_shortcircuit :: "val \<Rightarrow> val \<times> bool" where
  "or_shortcircuit a = (VBool True, a = VBool True)"

definition logic_not :: "val \<Rightarrow> result" where
  "logic_not v =
     (case convertToBool v of
        None \<Rightarrow> Inl (TypeError ''unexpected type, expected bool'')
      | Some b \<Rightarrow> Inr (VBool (\<not> b)))"

text \<open>
  \<^verbatim>\<open>
  PrefixOperator("-", func(c context.Context, v interface{}) (interface{}, error) {
      i, ok := convertToFloat(v)
      if !ok { return nil, fmt.Errorf("unexpected %v(%T) expected number", v, v) }
      return -i, nil
  }),
  \<close>
  The negation of a float64 is exact.
\<close>

fun float64_neg :: "float64 \<Rightarrow> float64" where
  "float64_neg (Fin a) = Fin (- a)"
| "float64_neg PInf = NInf"
| "float64_neg NInf = PInf"
| "float64_neg NaN = NaN"

definition base_negate :: "'s externals \<Rightarrow> val \<Rightarrow> result" where
  "base_negate ex v =
     (case convertToFloat ex v of
        None \<Rightarrow> Inl (TypeError ''unexpected value, expected number'')
      | Some i \<Rightarrow> Inr (VNum (float64_neg i)))"

section \<open>Languages\<close>

text \<open>
  Modelled from the spec: the type \<^verbatim>\<open>Language\<close>, its builders and \<^verbatim>\<open>NewLanguage\<close> are
  used by gval.go and defined in another file. Section 3: a Language is an immutable
  bundle of a prefix table (keyed by token kind or literal), an infix table, a postfix
  table and the set of operator symbols; in a union later entries override earlier ones
  for the same key and the symbol set is the union. Section 4.C: every builder returns a
  Language with a single entry, and \<^verbatim>\<open>NewLanguage\<close> folds its parts left to right.

  The infix table is kept field by field. Section 3 attaches the precedence and the
  short-circuit predicate to the symbol, independently of its evaluator, and section 9
  lets the evaluators of different operand families (\<^verbatim>\<open>+\<close> on numbers and on strings)
  coexist under one symbol: a key of the infix table is a symbol together with the field
  it sets.
\<close>

datatype prefix_key = KInt | KFloat | KString | KChar | KRawString | KIdent | KLit string

datatype 's prefix_entry =
    Extension "'s prefix_handler"
  | MetaPrefix "'s prefix_handler"
  | Operator "val \<Rightarrow> result"
  | ConstantValue val
  | FunctionValue "val list \<Rightarrow> 's \<Rightarrow> result \<times> 's"

record 's language =
  prefixes :: "prefix_key \<rightharpoonup> 's prefix_entry"
  number_operators :: "string \<rightharpoonup> (float64 \<Rightarrow> float64 \<Rightarrow> result)"
  bool_operators :: "string \<rightharpoonup> (bool \<Rightarrow> bool \<Rightarrow> result)"
  text_operators :: "string \<rightharpoonup> (string \<Rightarrow> string \<Rightarrow> result)"
  arbitrary_operators :: "string \<rightharpoonup> (val \<Rightarrow> val \<Rightarrow> result)"
  eval_operators :: "string \<rightharpoonup> 's eval_operator"
  shortcircuits :: "string \<rightharpoonup> (val \<Rightarrow> val \<times> bool)"
  precedences :: "string \<rightharpoonup> nat"
  postfixes :: "string \<rightharpoonup> 's postfix_handler"
  symbols :: "string set"

definition newLanguage :: "'s language" where
  "newLanguage =
     \<lparr>prefixes = Map.empty, number_operators = Map.empty, bool_operators = Map.empty,
      text_operators = Map.empty, arbitrary_operators = Map.empty,
      eval_operators = Map.empty, shortcircuits = Map.empty, precedences = Map.empty,
      postfixes = Map.empty, symbols = {}\<rparr>"

definition merge_language :: "'s language \<Rightarrow> 's language \<Rightarrow> 's language" where
  "merge_language A B =
     \<lparr>prefixes = prefixes A ++ prefixes B,
      number_operators = number_operators A ++ number_operators B,
      bool_operators = bool_operators A ++ bool_operators B,
      text_operators = text_operators A ++ text_operators B,
      arbitrary_operators = arbitrary_operators A ++ arbitrary_operators B,
      eval_operators = eval_operators A ++ eval_operators B,
      shortcircuits = shortcircuits A ++ shortcircuits B,
      precedences = precedences A ++ precedences B,
      postfixes = postfixes A ++ postfixes B,
      symbols = symbols A \<union> symbols B\<rparr>"

definition NewLanguage :: "'s language list \<Rightarrow> 's language" where
  "NewLanguage bases = foldl merge_language newLanguage bases"

definition PrefixExtension :: "prefix_key \<Rightarrow> 's prefix_handler \<Rightarrow> 's language" where
  "PrefixExtension k h = newLanguage\<lparr>prefixes := [k \<mapsto> Extension h]\<rparr>"

definition PrefixMetaPrefix :: "prefix_key \<Rightarrow> 's prefix_handler \<Rightarrow> 's language" where
  "PrefixMetaPrefix k h = newLanguage\<lparr>prefixes := [k \<mapsto> MetaPrefix h]\<rparr>"

definition PrefixOperator :: "string \<Rightarrow> (val \<Rightarrow> result) \<Rightarrow> 's language" where
  "PrefixOperator name fn = newLanguage\<lparr>prefixes := [KLit name \<mapsto> Operator fn]\<rparr>"

definition Constant :: "string \<Rightarrow> val \<Rightarrow> 's language" where
  "Constant name v = newLanguage\<lparr>prefixes := [KLit name \<mapsto> ConstantValue v]\<rparr>"

definition Function :: "string \<Rightarrow> (val list \<Rightarrow> 's \<Rightarrow> result \<times> 's) \<Rightarrow> 's language" where
  "Function name fn = newLanguage\<lparr>prefixes := [KLit name \<mapsto> FunctionValue fn]\<rparr>"

definition InfixOperator :: "string \<Rightarrow> (val \<Rightarrow> val \<Rightarrow> result) \<Rightarrow> 's language" where
  "InfixOperator name fn = newLanguage\<lparr>arbitrary_operators := [name \<mapsto> fn], symbols := {name}\<rparr>"

definition InfixNumberOperator :: "string \<Rightarrow> (float64 \<Rightarrow> float64 \<Rightarrow> result) \<Rightarrow> 's language" where
  "InfixNumberOperator name fn = newLanguage\<lparr>number_operators := [name \<mapsto> fn], symbols := {name}\<rparr>"

definition InfixBoolOperator :: "string \<Rightarrow> (bool \<Rightarrow> bool \<Rightarrow> result) \<Rightarrow> 's language" where
  "InfixBoolOperator name fn = newLanguage\<lparr>bool_operators := [name \<mapsto> fn], symbols := {name}\<rparr>"

definition InfixTextOperator :: "string \<Rightarrow> (string \<Rightarrow> string \<Rightarrow> result) \<Rightarrow> 's language" where
  "InfixTextOperator name fn = newLanguage\<lparr>text_operators := [name \<mapsto> fn], symbols := {name}\<rparr>"

definition InfixEvalOperator :: "string \<Rightarrow> 's eval_operator \<Rightarrow> 's language" where
  "InfixEvalOperator name fn = newLanguage\<lparr>eval_operators := [name \<mapsto> fn], symbols := {name}\<rparr>"

definition InfixShortCircuit :: "string \<Rightarrow> (val \<Rightarrow> val \<times> bool) \<Rightarrow> 's language" where
  "InfixShortCircuit name fn = newLanguage\<lparr>shortcircuits := [name \<mapsto> fn], symbols := {name}\<rparr>"

definition Precedence :: "string \<Rightarrow> nat \<Rightarrow> 's language" where
  "Precedence name n = newLanguage\<lparr>precedences := [name \<mapsto> n], symbols := {name}\<rparr>"

definition PostfixOperator :: "string \<Rightarrow> 's postfix_handler \<Rightarrow> 's language" where
  "PostfixOperator name h = newLanguage\<lparr>postfixes := [name \<mapsto> h], symbols := {name}\<rparr>"

section \<open>Evaluators\<close>

text \<open>
  Modelled from the spec: the evaluator nodes are built in another file. Section 4.E:
  a constant returns the captured value; a prefix operator evaluates its operand and
  invokes its function; a function call evaluates its arguments left to right and invokes
  the function; a strict infix node evaluates left, then, if a short-circuit predicate is
  registered for the symbol and reports stop, returns its result without evaluating
  right, else evaluates right and invokes the function; a ternary evaluates the
  condition, coerces it to bool and returns the corresponding branch. The first error
  ends the evaluation (section 7).
\<close>

definition Const :: "val \<Rightarrow> 's evaluable" where
  "Const v = (\<lambda>parameter s. (Inr v, s))"

definition PrefixOp :: "(val \<Rightarrow> result) \<Rightarrow> 's evaluable \<Rightarrow> 's evaluable" where
  "PrefixOp fn operand =
     (\<lambda>parameter s.
        case operand parameter s of
          (Inl e, s1) \<Rightarrow> (Inl e, s1)
        | (Inr v, s1) \<Rightarrow> (fn v, s1))"

fun eval_arguments :: "'s evaluable list \<Rightarrow> val \<Rightarrow> 's \<Rightarrow> (error + val list) \<times> 's" where
  "eval_arguments [] parameter s = (Inr [], s)"
| "eval_arguments (arg # args) parameter s =
     (case arg parameter s of
        (Inl e, s1) \<Rightarrow> (Inl e, s1)
      | (Inr v, s1) \<Rightarrow>
          (case eval_arguments args parameter s1 of
             (Inl e, s2) \<Rightarrow> (Inl e, s2)
           | (Inr vs, s2) \<Rightarrow> (Inr (v # vs), s2)))"

definition FunctionCall :: "(val list \<Rightarrow> 's \<Rightarrow> result \<times> 's) \<Rightarrow> 's evaluable list \<Rightarrow> 's evaluable" where
  "FunctionCall fn args =
     (\<lambda>parameter s.
        case eval_arguments args parameter s of
          (Inl e, s1) \<Rightarrow> (Inl e, s1)
        | (Inr vs, s1) \<Rightarrow> fn vs s1)"

text \<open>
  The function of an infix symbol: the number operator where both operands convert to
  numbers, else the bool operator where both convert to bool, else the text operator on
  two strings, else the operator on arbitrary values; a TypeError when none applies.
\<close>

definition apply_infix :: "'s externals \<Rightarrow> 's language \<Rightarrow> string \<Rightarrow> val \<Rightarrow> val \<Rightarrow> result" where
  "apply_infix ex l name a b =
     (case (number_operators l name, convertToFloat ex a, convertToFloat ex b) of
        (Some f, Some x, Some y) \<Rightarrow> f x y
      | _ \<Rightarrow>
     (case (bool_operators l name, convertToBool a, convertToBool b) of
        (Some f, Some x, Some y) \<Rightarrow> f x y
      | _ \<Rightarrow>
     (case (text_operators l name, a, b) of
        (Some f, VStr x, VStr y) \<Rightarrow> f x y
      | _ \<Rightarrow>
     (case arbitrary_operators l name of
        Some f \<Rightarrow> f a b
      | None \<Rightarrow> Inl (TypeError (''invalid operation '' @ name))))))"

definition InfixOp :: "'s externals \<Rightarrow> 's language \<Rightarrow> string \<Rightarrow> 's evaluable \<Rightarrow> 's evaluable \<Rightarrow> 's evaluable" where
  "InfixOp ex l name left right =
     (\<lambda>parameter s.
        case left parameter s of
          (Inl e, s1) \<Rightarrow> (Inl e, s1)
        | (Inr a, s1) \<Rightarrow>
            (case (case shortcircuits l name of
                     None \<Rightarrow> None
                   | Some predicate \<Rightarrow>
                       (case predicate a of (r, stop) \<Rightarrow> if stop then Some r else None)) of
               Some r \<Rightarrow> (Inr r, s1)
             | None \<Rightarrow>
                 (case right parameter s1 of
                    (Inl e, s2) \<Rightarrow> (Inl e, s2)
                  | (Inr b, s2) \<Rightarrow> (apply_infix ex l name a b, s2))))"

definition Ternary :: "'s evaluable \<Rightarrow> 's evaluable \<Rightarrow> 's evaluable \<Rightarrow> 's evaluable" where
  "Ternary condition thenBranch elseBranch =
     (\<lambda>parameter s.
        case condition parameter s of
          (Inl e, s1) \<Rightarrow> (Inl e, s1)
        | (Inr c, s1) \<Rightarrow>
            (case convertToBool c of
               None \<Rightarrow> (Inl (TypeError ''condition is not a bool''), s1)
             | Some True \<Rightarrow> thenBranch parameter s1
             | Some False \<Rightarrow> elseBranch parameter s1))"

section \<open>Parser extensions\<close>

text \<open>
  Modelled from the spec: \<^verbatim>\<open>parseNumber\<close>, \<^verbatim>\<open>parseParentheses\<close> and \<^verbatim>\<open>parseIf\<close> are
  named in gval.go and defined in another file. Section 6: a number is a decimal integer
  or a float, and denotes an IEEE-754 double; a decimal integer below \<open>2 ^ 53\<close> is its own
  double, every other literal is read by \<^verbatim>\<open>strconv.ParseFloat\<close>. Section 4.D: \<^verbatim>\<open>(\<close>
  parses a sub-expression and requires \<^verbatim>\<open>)\<close>; \<^verbatim>\<open>?\<close> parses a then-branch, requires
  \<^verbatim>\<open>:\<close> and parses an else-branch at the ternary's own precedence (it has none
  registered: 0).
\<close>

fun decimal :: "string \<Rightarrow> nat \<Rightarrow> nat option" where
  "decimal [] acc = Some acc"
| "decimal (c # cs) acc =
     (if CHR ''0'' \<le> c \<and> c \<le> CHR ''9'' then decimal cs (10 * acc + (of_char c - 48))
      else None)"

definition number_literal :: "'s externals \<Rightarrow> string \<Rightarrow> float64 option" where
  "number_literal ex lit =
     (case decimal lit 0 of
        Some n \<Rightarrow> if lit \<noteq> [] \<and> int n < 2 ^ 53 then Some (Fin (of_nat n)) else ParseFloat ex lit
      | None \<Rightarrow> ParseFloat ex lit)"

definition parseNumber :: "'s externals \<Rightarrow> 's prefix_handler" where
  "parseNumber ex sub t rest =
     (case (case t of TInt lit \<Rightarrow> number_literal ex lit
                    | TFloat lit \<Rightarrow> number_literal ex lit
                    | _ \<Rightarrow> None) of
        None \<Rightarrow> Inl (SyntaxError ''expected a number'')
      | Some n \<Rightarrow> Inr (Const (VNum n), rest))"

definition parseParentheses :: "'s prefix_handler" where
  "parseParentheses sub t rest =
     (case sub 0 rest of
        Inl e \<Rightarrow> Inl e
      | Inr (inner, rest1) \<Rightarrow>
          (case rest1 of
             TPunct c # rest2 \<Rightarrow>
               if c = CHR '')'' then Inr (inner, rest2) else Inl (SyntaxError ''expected )'')
           | _ \<Rightarrow> Inl (SyntaxError ''expected )'')))"

definition parseIf :: "'s postfix_handler" where
  "parseIf sub condition rest =
     (case sub 0 rest of
        Inl e \<Rightarrow> Inl e
      | Inr (a, rest1) \<Rightarrow>
          (case rest1 of
             TPunct c # rest2 \<Rightarrow>
               if c = CHR '':'' then
                 (case sub 0 rest2 of
                    Inl e \<Rightarrow> Inl e
                  | Inr (b, rest3) \<Rightarrow> Inr (Ternary condition a b, rest3))
               else Inl (SyntaxError ''expected :'')
           | _ \<Rightarrow> Inl (SyntaxError ''expected :'')))"

section \<open>The built-in languages\<close>

text \<open>
  The languages of gval.go, entry by entry and in its order. \<^verbatim>\<open>scanner.Int\<close>,
  \<^verbatim>\<open>scanner.Float\<close>, \<^verbatim>\<open>scanner.String\<close>, \<^verbatim>\<open>scanner.Char\<close>, \<^verbatim>\<open>scanner.RawString\<close> and
  \<^verbatim>\<open>scanner.Ident\<close> are the keys of the token kinds. The text language is
  \<open>text_language\<close> here.
\<close>

definition base :: "'s externals \<Rightarrow> 's language" where
  "base ex = NewLanguage [
     PrefixExtension KInt (parseNumber ex),
     PrefixExtension KFloat (parseNumber ex),
     PrefixOperator ''-'' (base_negate ex),

     PrefixExtension KString (parseString ex),
     PrefixExtension KChar (parseString ex),
     PrefixExtension KRawString (parseString ex),

     Constant ''true'' (VBool True),
     Constant ''false'' (VBool False),

     InfixOperator ''=='' base_eq,
     InfixOperator ''!='' base_ne,
     PrefixExtension (KLit ''('') parseParentheses,

     Precedence ''??'' 0,

     Precedence ''||'' 20,
     Precedence ''&&'' 21,

     Precedence ''=='' 40,
     Precedence ''!='' 40,
     Precedence ''>'' 40,
     Precedence ''>='' 40,
     Precedence ''<'' 40,
     Precedence ''<='' 40,
     Precedence ''=~'' 40,
     Precedence ''!~'' 40,
     Precedence ''in'' 40,

     Precedence ''^'' 60,
     Precedence ''&'' 60,
     Precedence ''|'' 60,

     Precedence ''<<'' 90,
     Precedence ''>>'' 90,

     Precedence ''+'' 120,
     Precedence ''-'' 120,

     Precedence ''*'' 150,
     Precedence ''/'' 150,
     Precedence ''%'' 150,

     Precedence ''**'' 200,

     PrefixMetaPrefix KIdent (parseIdent ex)]"

definition arithmetic :: "'s externals \<Rightarrow> 's language" where
  "arithmetic ex = NewLanguage [
     InfixNumberOperator ''+'' (\<lambda>a b. Inr (VNum (fadd ex a b))),
     InfixNumberOperator ''-'' (\<lambda>a b. Inr (VNum (fsub ex a b))),
     InfixNumberOperator ''*'' (\<lambda>a b. Inr (VNum (fmul ex a b))),
     InfixNumberOperator ''/'' (\<lambda>a b. Inr (VNum (fdiv ex a b))),
     InfixNumberOperator ''%'' (\<lambda>a b. Inr (VNum (Mod ex a b))),
     InfixNumberOperator ''**'' (\<lambda>a b. Inr (VNum (Pow ex a b))),

     InfixNumberOperator ''>'' (\<lambda>a b. Inr (VBool (float64_less b a))),
     InfixNumberOperator ''>='' (\<lambda>a b. Inr (VBool (float64_le b a))),
     InfixNumberOperator ''<'' (\<lambda>a b. Inr (VBool (float64_less a b))),
     InfixNumberOperator ''<='' (\<lambda>a b. Inr (VBool (float64_le a b))),

     InfixNumberOperator ''=='' (\<lambda>a b. Inr (VBool (float64_eq a b))),
     InfixNumberOperator ''!='' (\<lambda>a b. Inr (VBool (\<not> float64_eq a b))),

     base ex]"

definition bitmask :: "'s externals \<Rightarrow> 's language" where
  "bitmask ex = NewLanguage [
     InfixNumberOperator ''^'' (bitmask_xor ex),
     InfixNumberOperator ''&'' (bitmask_and ex),
     InfixNumberOperator ''|'' (bitmask_or ex),
     InfixNumberOperator ''<<'' (bitmask_shl ex),
     InfixNumberOperator ''>>'' (bitmask_shr ex),

     PrefixOperator ''~'' (bitmask_not ex)]"

definition text_language :: "'s externals \<Rightarrow> 's language" where
  "text_language ex = NewLanguage [
     InfixTextOperator ''+'' (\<lambda>a b. Inr (VStr (a @ b))),

     InfixTextOperator ''<'' (\<lambda>a b. Inr (VBool (a < b))),
     InfixTextOperator ''<='' (\<lambda>a b. Inr (VBool (a \<le> b))),
     InfixTextOperator ''>'' (\<lambda>a b. Inr (VBool (a > b))),
     InfixTextOperator ''>='' (\<lambda>a b. Inr (VBool (a \<ge> b))),

     InfixEvalOperator ''=~'' (regEx ex),
     InfixEvalOperator ''!~'' (notRegEx ex),
     base ex]"

definition propositionalLogic :: "'s externals \<Rightarrow> 's language" where
  "propositionalLogic ex = NewLanguage [
     PrefixOperator ''!'' logic_not,

     InfixShortCircuit ''&&'' and_shortcircuit,
     InfixBoolOperator ''&&'' (\<lambda>a b. Inr (VBool (a \<and> b))),
     InfixShortCircuit ''||'' or_shortcircuit,
     InfixBoolOperator ''||'' (\<lambda>a b. Inr (VBool (a \<or> b))),

     InfixBoolOperator ''=='' (\<lambda>a b. Inr (VBool (a = b))),
     InfixBoolOperator ''!='' (\<lambda>a b. Inr (VBool (a \<noteq> b))),

     base ex]"

definition ljson :: "'s externals \<Rightarrow> 's language" where
  "ljson ex = NewLanguage [
     PrefixExtension (KLit ''['') (parseJSONArray ex),
     PrefixExtension (KLit ''{'') (parseJSONObject ex)]"

definition full :: "'s externals \<Rightarrow> 's language" where
  "full ex = NewLanguage [arithmetic ex, bitmask ex, text_language ex, propositionalLogic ex, ljson ex,

     InfixOperator ''in'' inArray,

     InfixShortCircuit ''??'' coalesce_shortcircuit,
     InfixOperator ''??'' coalesce,

     PostfixOperator ''?'' parseIf,

     Function ''date'' (\<lambda>arguments s. (date ex arguments, s))]"

section \<open>The parser\<close>

text \<open>
  Modelled from the spec: the parser is defined in another file. Section 4.D,
  \<^verbatim>\<open>parseExpression(minPrec)\<close>: first the next token picks a prefix handler (by kind for
  a literal; for punctuation by the longest operator symbol that the coming punctuation
  forms, else by the single character; for an identifier by its text, else the handler
  of identifiers). Then, as long as the coming tokens form an infix or postfix operator
  whose precedence is at least \<open>minPrec\<close>, the operator is consumed: a postfix handler
  takes the expression parsed so far; an infix operator parses its right operand at its
  precedence plus one, and \<^verbatim>\<open>**\<close> at its own precedence. A symbol with no registered
  precedence has precedence 0. The operand of a prefix operator is the next prefix
  expression alone.

  The tokens come from \<^verbatim>\<open>text/scanner\<close> (field \<open>scan\<close>): punctuation is one token for
  each character, the last token is \<open>TEOF\<close>.

  The recursion of \<open>parseExpression\<close> passes through the handlers of the language, so it
  is bounded by a counter: \<open>OutOfFuel\<close> is the result of a parse that needs more than the
  counter allows, and \<open>Parse\<close> starts the counter at the number of tokens.
\<close>

fun punct_run :: "token list \<Rightarrow> string" where
  "punct_run (TPunct c # ts) = c # punct_run ts"
| "punct_run _ = []"

fun longest_match :: "string set \<Rightarrow> string \<Rightarrow> nat \<Rightarrow> string option" where
  "longest_match S run 0 = None"
| "longest_match S run (Suc n) =
     (if take (Suc n) run \<in> S then Some (take (Suc n) run) else longest_match S run n)"

definition next_operator :: "'s language \<Rightarrow> token list \<Rightarrow> (string \<times> token list) option" where
  "next_operator l ts =
     (case ts of
        TIdent name # rest \<Rightarrow> if name \<in> symbols l then Some (name, rest) else None
      | TPunct c # rest \<Rightarrow>
          (case longest_match (symbols l) (punct_run ts) (length (punct_run ts)) of
             None \<Rightarrow> None
           | Some name \<Rightarrow> Some (name, drop (length name) ts))
      | _ \<Rightarrow> None)"

text \<open>The prefix entry of the next token, and how many further tokens its key spans.\<close>

definition prefix_lookup :: "'s language \<Rightarrow> token \<Rightarrow> token list \<Rightarrow> ('s prefix_entry \<times> nat) option" where
  "prefix_lookup l t rest =
     (case t of
        TInt lit \<Rightarrow> map_option (\<lambda>e. (e, 0)) (prefixes l KInt)
      | TFloat lit \<Rightarrow> map_option (\<lambda>e. (e, 0)) (prefixes l KFloat)
      | TString lit \<Rightarrow> map_option (\<lambda>e. (e, 0)) (prefixes l KString)
      | TChar lit \<Rightarrow> map_option (\<lambda>e. (e, 0)) (prefixes l KChar)
      | TRawString lit \<Rightarrow> map_option (\<lambda>e. (e, 0)) (prefixes l KRawString)
      | TIdent name \<Rightarrow>
          (case prefixes l (KLit name) of
             Some e \<Rightarrow> Some (e, 0)
           | None \<Rightarrow> map_option (\<lambda>e. (e, 0)) (prefixes l KIdent))
      | TPunct c \<Rightarrow>
          (case (case longest_match (symbols l) (c # punct_run rest) (Suc (length (punct_run rest))) of
                   None \<Rightarrow> None
                 | Some name \<Rightarrow> map_option (\<lambda>e. (e, length name - 1)) (prefixes l (KLit name))) of
             Some found \<Rightarrow> Some found
           | None \<Rightarrow> map_option (\<lambda>e. (e, 0)) (prefixes l (KLit [c])))
      | TEOF \<Rightarrow> None)"

fun parseArguments :: "nat \<Rightarrow> 's subparser \<Rightarrow> token list \<Rightarrow> error + ('s evaluable list \<times> token list)" where
  "parseArguments 0 sub ts = Inl OutOfFuel"
| "parseArguments (Suc k) sub ts =
     (case sub 0 ts of
        Inl e \<Rightarrow> Inl e
      | Inr (arg, rest) \<Rightarrow>
          (case rest of
             TPunct c # rest1 \<Rightarrow>
               if c = CHR '','' then
                 (case parseArguments k sub rest1 of
                    Inl e \<Rightarrow> Inl e
                  | Inr (args, rest2) \<Rightarrow> Inr (arg # args, rest2))
               else if c = CHR '')'' then Inr ([arg], rest1)
               else Inl (SyntaxError ''expected , or )'')
           | _ \<Rightarrow> Inl (SyntaxError ''expected , or )'')))"

definition parseCall :: "(val list \<Rightarrow> 's \<Rightarrow> result \<times> 's) \<Rightarrow> 's subparser \<Rightarrow> token list \<Rightarrow> 's parsed" where
  "parseCall fn sub ts =
     (case ts of
        TPunct c # rest \<Rightarrow>
          if c \<noteq> CHR ''('' then Inl (SyntaxError ''expected ('')
          else if (case rest of TPunct d # rest1 \<Rightarrow> d = CHR '')'' | _ \<Rightarrow> False)
          then Inr (FunctionCall fn [], tl rest)
          else
            (case parseArguments (length rest) sub rest of
               Inl e \<Rightarrow> Inl e
             | Inr (args, rest1) \<Rightarrow> Inr (FunctionCall fn args, rest1))
      | _ \<Rightarrow> Inl (SyntaxError ''expected (''))"

function nud :: "'s language \<Rightarrow> 's subparser \<Rightarrow> token list \<Rightarrow> 's parsed" where
  "nud l sub ts =
     (case ts of
        [] \<Rightarrow> Inl (SyntaxError ''unexpected end of the expression'')
      | t # rest \<Rightarrow>
          (case prefix_lookup l t rest of
             None \<Rightarrow> Inl (SyntaxError ''unexpected token'')
           | Some (entry, k) \<Rightarrow>
               (case entry of
                  Extension h \<Rightarrow> h sub t (drop k rest)
                | MetaPrefix h \<Rightarrow> h sub t (drop k rest)
                | Operator fn \<Rightarrow>
                    (case nud l sub (drop k rest) of
                       Inl e \<Rightarrow> Inl e
                     | Inr (operand, rest1) \<Rightarrow> Inr (PrefixOp fn operand, rest1))
                | ConstantValue v \<Rightarrow> Inr (Const v, drop k rest)
                | FunctionValue fn \<Rightarrow> parseCall fn sub (drop k rest))))"
  by pat_completeness auto
termination
  by (relation "measure (\<lambda>(l, sub, ts). length ts)") auto

definition precedence :: "'s language \<Rightarrow> string \<Rightarrow> nat" where
  "precedence l name = (case precedences l name of None \<Rightarrow> 0 | Some n \<Rightarrow> n)"

definition is_infix :: "'s language \<Rightarrow> string \<Rightarrow> bool" where
  "is_infix l name \<longleftrightarrow>
     number_operators l name \<noteq> None \<or> bool_operators l name \<noteq> None \<or>
     text_operators l name \<noteq> None \<or> arbitrary_operators l name \<noteq> None"

fun led :: "nat \<Rightarrow> 's externals \<Rightarrow> 's language \<Rightarrow> 's subparser \<Rightarrow> nat \<Rightarrow> 's evaluable \<Rightarrow> token list \<Rightarrow> 's parsed" where
  "led 0 ex l sub minPrec left ts = Inl OutOfFuel"
| "led (Suc k) ex l sub minPrec left ts =
     (case next_operator l ts of
        None \<Rightarrow> Inr (left, ts)
      | Some (name, rest) \<Rightarrow>
          if precedence l name < minPrec then Inr (left, ts)
          else
            (case postfixes l name of
               Some h \<Rightarrow>
                 (case h sub left rest of
                    Inl e \<Rightarrow> Inl e
                  | Inr (left1, rest1) \<Rightarrow> led k ex l sub minPrec left1 rest1)
             | None \<Rightarrow>
                 (case sub (if name = ''**'' then precedence l name else precedence l name + 1) rest of
                    Inl e \<Rightarrow> Inl e
                  | Inr (right, rest1) \<Rightarrow>
                      (case eval_operators l name of
                         Some fn \<Rightarrow>
                           (case fn left right of
                              Inl e \<Rightarrow> Inl e
                            | Inr node \<Rightarrow> led k ex l sub minPrec node rest1)
                       | None \<Rightarrow>
                           if is_infix l name
                           then led k ex l sub minPrec (InfixOp ex l name left right) rest1
                           else Inl (UnknownOperator name)))))"

primrec parseExpression :: "nat \<Rightarrow> 's externals \<Rightarrow> 's language \<Rightarrow> 's subparser" where
  "parseExpression 0 ex l minPrec ts = Inl OutOfFuel"
| "parseExpression (Suc n) ex l minPrec ts =
     (case nud l (parseExpression n ex l) ts of
        Inl e \<Rightarrow> Inl e
      | Inr (left, rest) \<Rightarrow> led (Suc n) ex l (parseExpression n ex l) minPrec left rest)"

definition Parse :: "'s externals \<Rightarrow> 's language \<Rightarrow> token list \<Rightarrow> error + 's evaluable" where
  "Parse ex l ts =
     (case parseExpression (length ts) ex l 0 ts of
        Inl e \<Rightarrow> Inl e
      | Inr (ev, rest) \<Rightarrow>
          if rest = [TEOF] then Inr ev else Inl (SyntaxError ''unexpected token''))"

definition evaluate_tokens :: "'s externals \<Rightarrow> 's language \<Rightarrow> token list \<Rightarrow> 's evaluable" where
  "evaluate_tokens ex l ts =
     (\<lambda>parameter s.
        case Parse ex l ts of
          Inl e \<Rightarrow> (Inl e, s)
        | Inr ev \<Rightarrow> ev parameter s)"

definition language_Evaluate :: "'s externals \<Rightarrow> 's language \<Rightarrow> string \<Rightarrow> 's evaluable" where
  "language_Evaluate ex l expression = evaluate_tokens ex l (scan ex expression)"

section \<open>The entry point\<close>

text \<open>
  \<^verbatim>\<open>
  func Evaluate(expression string, parameter interface{}, opts ...Language) (interface{}, error) {
      l := full
      if len(opts) > 0 {
          l = NewLanguage(append([]Language{l}, opts...)...)
      }
      return l.Evaluate(expression, parameter)
  }
  \<close>
\<close>

text \<open>
  \<^verbatim>\<open>
  func Full(extensions ...Language) Language {
      if len(extensions) == 0 { return full }
      return NewLanguage(append([]Language{full}, extensions...)...)
  }
  \<close>
\<close>

definition Full :: "'s externals \<Rightarrow> 's language list \<Rightarrow> 's language" where
  "Full ex extensions =
     (if length extensions = 0 then full ex else NewLanguage ([full ex] @ extensions))"

definition Evaluate :: "'s externals \<Rightarrow> string \<Rightarrow> val \<Rightarrow> 's language list \<Rightarrow> 's \<Rightarrow> result \<times> 's" where
  "Evaluate ex expression parameter opts =
     (let l = (if length opts > 0 then NewLanguage ([full ex] @ opts) else full ex)
      in language_Evaluate ex l expression parameter)"

section \<open>An instance of the externals\<close>

text \<open>
  One record of externals, to evaluate the languages on concrete inputs: the arithmetic
  is exact on finite operands, a conversion of an unrepresentable value gives the least
  int64 (what amd64 does), and the scanner reads decimal integers, lower-case
  identifiers and punctuation. The state of the host is a counter.
\<close>

definition exact2 :: "(rat \<Rightarrow> rat \<Rightarrow> rat) \<Rightarrow> float64 \<Rightarrow> float64 \<Rightarrow> float64" where
  "exact2 f a b = (case (a, b) of (Fin x, Fin y) \<Rightarrow> Fin (f x y) | _ \<Rightarrow> NaN)"

definition is_digit :: "char \<Rightarrow> bool" where
  "is_digit c \<longleftrightarrow> CHR ''0'' \<le> c \<and> c \<le> CHR ''9''"

definition is_letter :: "char \<Rightarrow> bool" where
  "is_letter c \<longleftrightarrow> CHR ''a'' \<le> c \<and> c \<le> CHR ''z''"

function sample_scan :: "string \<Rightarrow> token list" where
  "sample_scan [] = [TEOF]"
| "sample_scan (c # cs) =
     (if c = CHR '' '' then sample_scan cs
      else if is_digit c then TInt (c # takeWhile is_digit cs) # sample_scan (dropWhile is_digit cs)
      else if is_letter c then TIdent (c # takeWhile is_letter cs) # sample_scan (dropWhile is_letter cs)
      else TPunct c # sample_scan cs)"
  by pat_completeness auto
termination
  by (relation "measure length") (auto simp: le_imp_less_Suc length_dropWhile_le)

definition sample_externals :: "nat externals" where
  "sample_externals =
     \<lparr>fadd = exact2 (+), fsub = exact2 (-), fmul = exact2 (*), fdiv = exact2 (/),
      Mod = (\<lambda>a b. NaN),
      Pow = exact2 (\<lambda>x y. x ^ nat \<lfloor>y\<rfloor>),
      int64_unrepresentable = (\<lambda>a. push_bit 63 1),
      uint64_unrepresentable = (\<lambda>a. push_bit 63 1),
      ParseFloat = (\<lambda>lit. None),
      ParseInLocation = (\<lambda>format lit. if format = ''2006-01-02'' \<and> lit = ''1970-01-01'' then Some 0 else None),
      opaque_number = (\<lambda>h. None),
      scan = sample_scan,
      parseString = (\<lambda>sub t rest. Inl (SyntaxError ''strings are not read'')),
      parseJSONArray = (\<lambda>sub t rest. Inl (SyntaxError ''arrays are not read'')),
      parseJSONObject = (\<lambda>sub t rest. Inl (SyntaxError ''objects are not read'')),
      parseIdent = (\<lambda>sub t rest. Inr (Const VNil, rest)),
      regEx = (\<lambda>a b. Inl (SyntaxError ''no regular expressions'')),
      notRegEx = (\<lambda>a b. Inl (SyntaxError ''no regular expressions''))\<rparr>"

text \<open>A host computation that counts its calls.\<close>

definition counted :: "val \<Rightarrow> nat evaluable" where
  "counted v = (\<lambda>parameter s. (Inr v, Suc s))"

section \<open>The tables of the built-in languages\<close>

lemma map_add_same: "m ++ m = m"
  by (rule ext) (simp add: map_add_def split: option.split)

lemma fields_newLanguage [simp]:
  "prefixes newLanguage = Map.empty"
  "number_operators newLanguage = Map.empty"
  "bool_operators newLanguage = Map.empty"
  "text_operators newLanguage = Map.empty"
  "arbitrary_operators newLanguage = Map.empty"
  "eval_operators newLanguage = Map.empty"
  "shortcircuits newLanguage = Map.empty"
  "precedences newLanguage = Map.empty"
  "postfixes newLanguage = Map.empty"
  "symbols newLanguage = {}"
  by (simp_all add: newLanguage_def)

lemma fields_merge_language [simp]:
  "prefixes (merge_language A B) = prefixes A ++ prefixes B"
  "number_operators (merge_language A B) = number_operators A ++ number_operators B"
  "bool_operators (merge_language A B) = bool_operators A ++ bool_operators B"
  "text_operators (merge_language A B) = text_operators A ++ text_operators B"
  "arbitrary_operators (merge_language A B) = arbitrary_operators A ++ arbitrary_operators B"
  "eval_operators (merge_language A B) = eval_operators A ++ eval_operators B"
  "shortcircuits (merge_language A B) = shortcircuits A ++ shortcircuits B"
  "precedences (merge_language A B) = precedences A ++ precedences B"
  "postfixes (merge_language A B) = postfixes A ++ postfixes B"
  "symbols (merge_language A B) = symbols A \<union> symbols B"
  by (simp_all add: merge_language_def)

lemma merge_language_newLanguage [simp]:
  "merge_language newLanguage A = A" "merge_language A newLanguage = A"
  by (simp_all add: merge_language_def newLanguage_def)

lemma NewLanguage_Nil [simp]: "NewLanguage [] = newLanguage"
  by (simp add: NewLanguage_def)

lemma merge_language_assoc:
  "merge_language (merge_language A B) C = merge_language A (merge_language B C)"
  by (simp add: merge_language_def Un_assoc)

lemma merge_language_same: "merge_language A A = A"
  by (simp add: merge_language_def map_add_same)

lemma foldl_merge_language:
  "foldl merge_language (merge_language A B) ls = merge_language A (foldl merge_language B ls)"
  by (induction ls arbitrary: B) (simp_all add: merge_language_assoc)

lemma NewLanguage_Cons: "NewLanguage (A # ls) = merge_language A (NewLanguage ls)"
  using foldl_merge_language [of A newLanguage ls] by (simp add: NewLanguage_def)

lemma NewLanguage_snoc: "NewLanguage (ls @ [A]) = merge_language (NewLanguage ls) A"
  by (simp add: NewLanguage_def)



lemmas builders = PrefixExtension_def PrefixMetaPrefix_def PrefixOperator_def Constant_def
  Function_def InfixOperator_def InfixNumberOperator_def InfixBoolOperator_def
  InfixTextOperator_def InfixEvalOperator_def InfixShortCircuit_def Precedence_def
  PostfixOperator_def newLanguage_def

lemmas languages = full_def arithmetic_def bitmask_def text_language_def propositionalLogic_def
  ljson_def base_def NewLanguage_def


lemmas built_in = full_def arithmetic_def bitmask_def text_language_def propositionalLogic_def
  ljson_def NewLanguage_def

lemma precedences_base:
  "precedences (base ex) =
     [''??'' \<mapsto> 0, ''||'' \<mapsto> 20, ''&&'' \<mapsto> 21,
      ''=='' \<mapsto> 40, ''!='' \<mapsto> 40, ''>'' \<mapsto> 40, ''>='' \<mapsto> 40, ''<'' \<mapsto> 40, ''<='' \<mapsto> 40,
      ''=~'' \<mapsto> 40, ''!~'' \<mapsto> 40, ''in'' \<mapsto> 40,
      ''^'' \<mapsto> 60, ''&'' \<mapsto> 60, ''|'' \<mapsto> 60,
      ''<<'' \<mapsto> 90, ''>>'' \<mapsto> 90,
      ''+'' \<mapsto> 120, ''-'' \<mapsto> 120,
      ''*'' \<mapsto> 150, ''/'' \<mapsto> 150, ''%'' \<mapsto> 150,
      ''**'' \<mapsto> 200]"
  by (simp add: base_def NewLanguage_def builders)

lemma prefixes_base:
  "prefixes (base ex) =
     [KInt \<mapsto> Extension (parseNumber ex), KFloat \<mapsto> Extension (parseNumber ex),
      KLit ''-'' \<mapsto> Operator (base_negate ex),
      KString \<mapsto> Extension (parseString ex), KChar \<mapsto> Extension (parseString ex),
      KRawString \<mapsto> Extension (parseString ex),
      KLit ''true'' \<mapsto> ConstantValue (VBool True), KLit ''false'' \<mapsto> ConstantValue (VBool False),
      KLit ''('' \<mapsto> Extension parseParentheses,
      KIdent \<mapsto> MetaPrefix (parseIdent ex)]"
  by (simp add: base_def NewLanguage_def builders)

lemma arbitrary_operators_base:
  "arbitrary_operators (base ex) = [''=='' \<mapsto> base_eq, ''!='' \<mapsto> base_ne]"
  by (simp add: base_def NewLanguage_def builders)

lemma symbols_base:
  "symbols (base ex) =
     {''??'', ''||'', ''&&'', ''=='', ''!='', ''>'', ''>='', ''<'', ''<='', ''=~'', ''!~'', ''in'',
      ''^'', ''&'', ''|'', ''<<'', ''>>'', ''+'', ''-'', ''*'', ''/'', ''%'', ''**''}"
  by (simp add: base_def NewLanguage_def builders insert_commute)

lemma empty_base [simp]:
  "number_operators (base ex) = Map.empty"
  "bool_operators (base ex) = Map.empty"
  "text_operators (base ex) = Map.empty"
  "eval_operators (base ex) = Map.empty"
  "shortcircuits (base ex) = Map.empty"
  "postfixes (base ex) = Map.empty"
  by (simp_all add: base_def NewLanguage_def builders)

lemma precedences_full: "precedences (full ex) = precedences (base ex)"
  by (simp add: built_in builders map_add_same)

lemma shortcircuits_full:
  "shortcircuits (full ex) =
     [''&&'' \<mapsto> and_shortcircuit, ''||'' \<mapsto> or_shortcircuit, ''??'' \<mapsto> coalesce_shortcircuit]"
  by (simp add: built_in builders)

lemma postfixes_full: "postfixes (full ex) = [''?'' \<mapsto> parseIf]"
  by (simp add: built_in builders)

lemma eval_operators_full:
  "eval_operators (full ex) = [''=~'' \<mapsto> regEx ex, ''!~'' \<mapsto> notRegEx ex]"
  by (simp add: built_in builders)

lemma arbitrary_operators_full:
  "arbitrary_operators (full ex) =
     [''=='' \<mapsto> base_eq, ''!='' \<mapsto> base_ne, ''in'' \<mapsto> inArray, ''??'' \<mapsto> coalesce]"
  by (simp add: built_in builders map_add_same arbitrary_operators_base)

lemma bool_operators_full:
  "bool_operators (full ex) =
     [''&&'' \<mapsto> (\<lambda>a b. Inr (VBool (a \<and> b))), ''||'' \<mapsto> (\<lambda>a b. Inr (VBool (a \<or> b))),
      ''=='' \<mapsto> (\<lambda>a b. Inr (VBool (a = b))), ''!='' \<mapsto> (\<lambda>a b. Inr (VBool (a \<noteq> b)))]"
  by (simp add: built_in builders)

lemma text_operators_full:
  "text_operators (full ex) =
     [''+'' \<mapsto> (\<lambda>a b. Inr (VStr (a @ b))),
      ''<'' \<mapsto> (\<lambda>a b. Inr (VBool (a < b))), ''<='' \<mapsto> (\<lambda>a b. Inr (VBool (a \<le> b))),
      ''>'' \<mapsto> (\<lambda>a b. Inr (VBool (a > b))), ''>='' \<mapsto> (\<lambda>a b. Inr (VBool (a \<ge> b)))]"
  by (simp add: built_in builders)

lemma number_operators_full:
  "number_operators (full ex) =
     [''+'' \<mapsto> (\<lambda>a b. Inr (VNum (fadd ex a b))),
      ''-'' \<mapsto> (\<lambda>a b. Inr (VNum (fsub ex a b))),
      ''*'' \<mapsto> (\<lambda>a b. Inr (VNum (fmul ex a b))),
      ''/'' \<mapsto> (\<lambda>a b. Inr (VNum (fdiv ex a b))),
      ''%'' \<mapsto> (\<lambda>a b. Inr (VNum (Mod ex a b))),
      ''**'' \<mapsto> (\<lambda>a b. Inr (VNum (Pow ex a b))),
      ''>'' \<mapsto> (\<lambda>a b. Inr (VBool (float64_less b a))),
      ''>='' \<mapsto> (\<lambda>a b. Inr (VBool (float64_le b a))),
      ''<'' \<mapsto> (\<lambda>a b. Inr (VBool (float64_less a b))),
      ''<='' \<mapsto> (\<lambda>a b. Inr (VBool (float64_le a b))),
      ''=='' \<mapsto> (\<lambda>a b. Inr (VBool (float64_eq a b))),
      ''!='' \<mapsto> (\<lambda>a b. Inr (VBool (\<not> float64_eq a b))),
      ''^'' \<mapsto> bitmask_xor ex, ''&'' \<mapsto> bitmask_and ex, ''|'' \<mapsto> bitmask_or ex,
      ''<<'' \<mapsto> bitmask_shl ex, ''>>'' \<mapsto> bitmask_shr ex]"
  by (simp add: built_in builders)

lemma prefixes_full:
  "prefixes (full ex) =
     (prefixes (base ex))
       (KLit ''~'' \<mapsto> Operator (bitmask_not ex), KLit ''!'' \<mapsto> Operator logic_not,
        KLit ''['' \<mapsto> Extension (parseJSONArray ex), KLit ''{'' \<mapsto> Extension (parseJSONObject ex),
        KLit ''date'' \<mapsto> FunctionValue (\<lambda>arguments s. (date ex arguments, s)))"
  apply (simp add: built_in builders map_add_same)
  apply (rule ext)
  apply (simp add: map_add_def prefixes_base split: option.split)
  done

lemma symbols_full: "symbols (full ex) = insert ''?'' (symbols (base ex))"
  by (auto simp add: built_in builders symbols_base)

lemmas tables_full = symbols_full symbols_base precedences_full precedences_base shortcircuits_full
  postfixes_full eval_operators_full arbitrary_operators_full bool_operators_full
  text_operators_full number_operators_full prefixes_full prefixes_base

lemmas parser = Parse_def prefix_lookup_def next_operator_def precedence_def is_infix_def
  parseNumber_def number_literal_def parseParentheses_def parseIf_def parseCall_def

lemmas nodes = InfixOp_def Const_def PrefixOp_def Ternary_def FunctionCall_def apply_infix_def
  convertToFloat_def convertToBool_def

section \<open>Evaluation of infix nodes and ternaries\<close>

lemma InfixOp_stop:
  assumes "left p s = (Inr a, s1)" "shortcircuits l name = Some predicate" "predicate a = (r, True)"
  shows "InfixOp ex l name left right p s = (Inr r, s1)"
  using assms by (simp add: InfixOp_def)

lemma InfixOp_continue:
  assumes "left p s = (Inr a, s1)" "shortcircuits l name = Some predicate" "predicate a = (r, False)"
    "right p s1 = (Inr b, s2)"
  shows "InfixOp ex l name left right p s = (apply_infix ex l name a b, s2)"
  using assms by (simp add: InfixOp_def)

lemma apply_infix_coalesce: "apply_infix ex (full ex) ''??'' a b = coalesce a b"
  by (simp add: apply_infix_def tables_full split: option.split val.split)

lemma fields_with_function:
  "prefixes (NewLanguage [full ex, Function name fn]) = (prefixes (full ex))(KLit name \<mapsto> FunctionValue fn)"
  "number_operators (NewLanguage [full ex, Function name fn]) = number_operators (full ex)"
  "bool_operators (NewLanguage [full ex, Function name fn]) = bool_operators (full ex)"
  "text_operators (NewLanguage [full ex, Function name fn]) = text_operators (full ex)"
  "arbitrary_operators (NewLanguage [full ex, Function name fn]) = arbitrary_operators (full ex)"
  "eval_operators (NewLanguage [full ex, Function name fn]) = eval_operators (full ex)"
  "shortcircuits (NewLanguage [full ex, Function name fn]) = shortcircuits (full ex)"
  "precedences (NewLanguage [full ex, Function name fn]) = precedences (full ex)"
  "postfixes (NewLanguage [full ex, Function name fn]) = postfixes (full ex)"
  "symbols (NewLanguage [full ex, Function name fn]) = symbols (full ex)"
  by (simp_all add: NewLanguage_def builders)

lemma and_stops:
  "left p s = (Inr (VBool False), s1) \<Longrightarrow>
   InfixOp ex (full ex) ''&&'' left f p s = (Inr (VBool False), s1)"
  by (rule InfixOp_stop [where predicate = and_shortcircuit])
     (simp_all add: shortcircuits_full and_shortcircuit_def)

lemma or_stops:
  "left p s = (Inr (VBool True), s1) \<Longrightarrow>
   InfixOp ex (full ex) ''||'' left f p s = (Inr (VBool True), s1)"
  by (rule InfixOp_stop [where predicate = or_shortcircuit])
     (simp_all add: shortcircuits_full or_shortcircuit_def)

lemma coalesce_stops:
  "left p s = (Inr x, s1) \<Longrightarrow> x \<noteq> VBool False \<Longrightarrow> x \<noteq> VNil \<Longrightarrow>
   InfixOp ex (full ex) ''??'' left f p s = (Inr x, s1)"
  by (rule InfixOp_stop [where predicate = coalesce_shortcircuit])
     (simp_all add: shortcircuits_full coalesce_shortcircuit_def)

lemma Ternary_then:
  "c p s = (Inr v, s1) \<Longrightarrow> convertToBool v = Some True \<Longrightarrow> Ternary c t e p s = t p s1"
  by (simp add: Ternary_def)

lemma Ternary_else:
  "c p s = (Inr v, s1) \<Longrightarrow> convertToBool v = Some False \<Longrightarrow> Ternary c t e p s = e p s1"
  by (simp add: Ternary_def)


lemma NewLanguage_append: "NewLanguage ([A] @ opts) = foldl merge_language A opts"
  by (simp add: NewLanguage_def)

section \<open>The loop of \<^verbatim>\<open>date\<close>\<close>

lemma date_range_first:
  "formats = before @ format # after \<Longrightarrow> \<forall>f \<in> set before. parse f s = None \<Longrightarrow>
   parse format s = Some ret \<Longrightarrow> date_range parse formats s = Some ret"
  by (induction before arbitrary: formats) auto

lemma date_range_none:
  "\<forall>f \<in> set formats. parse f s = None \<Longrightarrow> date_range parse formats s = None"
  by (induction formats) auto

lemma date_range_find:
  "date_range parse formats s =
     (case find (\<lambda>format. parse format s \<noteq> None) formats of
        None \<Rightarrow> None
      | Some format \<Rightarrow> parse format s)"
  by (induction formats) (auto split: option.split)

section \<open>Conversions between float64 and int64\<close>

lemma trunc_toward_zero: "trunc q = (if 0 \<le> q then \<lfloor>q\<rfloor> else \<lceil>q\<rceil>)"
  by (auto simp: trunc_def ceiling_def)

lemma trunc_of_int [simp]: "trunc (of_int n) = n"
  by (simp add: trunc_def flip: of_int_minus)

lemma sint_word_of_int_64:
  "- (2 ^ 63) \<le> k \<Longrightarrow> k < 2 ^ 63 \<Longrightarrow> sint (word_of_int k :: 64 word) = k"
  by (simp add: sint_sbintrunc' signed_take_bit_int_eq_self)

lemma unat_word_of_int_64:
  "0 \<le> k \<Longrightarrow> k < 2 ^ 64 \<Longrightarrow> unat (word_of_int k :: 64 word) = nat k"
  by (simp add: unat_eq_nat_uint uint_word_of_int_eq take_bit_int_eq_self)

lemma sint_int64:
  "- (2 ^ 63) \<le> trunc q \<Longrightarrow> trunc q < 2 ^ 63 \<Longrightarrow> sint (int64 ex (Fin q)) = trunc q"
  by (simp add: int64_def sint_word_of_int_64)

lemma unat_uint64:
  "0 \<le> trunc q \<Longrightarrow> trunc q < 2 ^ 64 \<Longrightarrow> unat (uint64 ex (Fin q)) = nat (trunc q)"
  by (simp add: uint64_def unat_word_of_int_64)

lemma sint_not_64: "sint (NOT w) = NOT (sint w)" for w :: "64 word"
proof -
  have "- (2 ^ 63) \<le> sint w" and "sint w < 2 ^ 63"
    using sint_ge [of w] sint_lt [of w] by simp_all
  then show ?thesis
    by (simp add: signed_not_eq signed_take_bit_int_eq_self_iff not_int_def)
qed

lemma round53_exact: "\<bar>i\<bar> \<le> 2 ^ 53 \<Longrightarrow> round53 i = i"
proof (cases "\<bar>i\<bar> = 2 ^ 53")
  case True
  then have "bitlen \<bar>i\<bar> = 54"
    using bitlen_twopow_add_eq [of 0 53] by simp
  with True show ?thesis
    by (auto simp: round53_def Let_def abs_if split: if_splits)
next
  case False
  assume "\<bar>i\<bar> \<le> 2 ^ 53"
  with False have "\<bar>i\<bar> < 2 ^ nat 53"
    by simp
  then have "bitlen \<bar>i\<bar> \<le> 53"
    by (simp add: bitlen_le_iff_power)
  then show ?thesis
    by (simp add: round53_def Let_def)
qed

lemma round53_inexact: "round53 (2 ^ 53 + 1) = 2 ^ 53"
proof -
  have "bitlen (2 ^ 53 + 1) = 54"
    using bitlen_twopow_add_eq [of 1 53] by simp
  then show ?thesis
    by (simp add: round53_def Let_def)
qed


lemma int64_trunc:
  "- (2 ^ 63) \<le> trunc x \<Longrightarrow> trunc x < 2 ^ 63 \<Longrightarrow> int64 ex (Fin (of_int (trunc x))) = int64 ex (Fin x)"
  by (simp add: int64_def)

lemma uint64_trunc:
  "0 \<le> trunc x \<Longrightarrow> trunc x < 2 ^ 64 \<Longrightarrow> uint64 ex (Fin (of_int (trunc x))) = uint64 ex (Fin x)"
  by (simp add: uint64_def)

lemma bitmask_values:
  assumes x: "- (2 ^ 63) \<le> trunc x" "trunc x < 2 ^ 63"
  shows "bitmask_not ex (VNum (Fin x)) = Inr (VNum (Fin (of_int (round53 (NOT (trunc x))))))"
    and "- (2 ^ 63) \<le> trunc y \<Longrightarrow> trunc y < 2 ^ 63 \<Longrightarrow>
      bitmask_xor ex (Fin x) (Fin y) = Inr (VNum (Fin (of_int (round53 (trunc x XOR trunc y)))))"
    and "- (2 ^ 63) \<le> trunc y \<Longrightarrow> trunc y < 2 ^ 63 \<Longrightarrow>
      bitmask_and ex (Fin x) (Fin y) = Inr (VNum (Fin (of_int (round53 (trunc x AND trunc y)))))"
    and "- (2 ^ 63) \<le> trunc y \<Longrightarrow> trunc y < 2 ^ 63 \<Longrightarrow>
      bitmask_or ex (Fin x) (Fin y) = Inr (VNum (Fin (of_int (round53 (trunc x OR trunc y)))))"
    and "0 \<le> trunc y \<Longrightarrow> trunc y < 2 ^ 64 \<Longrightarrow>
      bitmask_shl ex (Fin x) (Fin y) =
        Inr (VNum (Fin (of_int (round53 (signed_take_bit 63 (push_bit (nat (trunc y)) (trunc x)))))))"
    and "0 \<le> trunc y \<Longrightarrow> trunc y < 2 ^ 64 \<Longrightarrow>
      bitmask_shr ex (Fin x) (Fin y) =
        Inr (VNum (Fin (of_int (round53 (drop_bit (nat (trunc y)) (trunc x))))))"
  using x
  by (simp_all add: bitmask_not_def bitmask_xor_def bitmask_and_def bitmask_or_def bitmask_shl_def
      bitmask_shr_def convertToFloat_def float64_of_int64_def sint_not_64 signed_xor_eq
      signed_and_eq signed_or_eq signed_push_bit_eq sint_signed_drop_bit_eq sint_int64 unat_uint64)

lemma bitmask_truncated:
  assumes x: "- (2 ^ 63) \<le> trunc x" "trunc x < 2 ^ 63"
  shows "bitmask_not ex (VNum (Fin x)) = bitmask_not ex (VNum (Fin (of_int (trunc x))))"
    and "- (2 ^ 63) \<le> trunc y \<Longrightarrow> trunc y < 2 ^ 63 \<Longrightarrow>
      bitmask_xor ex (Fin x) (Fin y) = bitmask_xor ex (Fin (of_int (trunc x))) (Fin (of_int (trunc y)))"
    and "- (2 ^ 63) \<le> trunc y \<Longrightarrow> trunc y < 2 ^ 63 \<Longrightarrow>
      bitmask_and ex (Fin x) (Fin y) = bitmask_and ex (Fin (of_int (trunc x))) (Fin (of_int (trunc y)))"
    and "- (2 ^ 63) \<le> trunc y \<Longrightarrow> trunc y < 2 ^ 63 \<Longrightarrow>
      bitmask_or ex (Fin x) (Fin y) = bitmask_or ex (Fin (of_int (trunc x))) (Fin (of_int (trunc y)))"
    and "0 \<le> trunc y \<Longrightarrow> trunc y < 2 ^ 64 \<Longrightarrow>
      bitmask_shl ex (Fin x) (Fin y) = bitmask_shl ex (Fin (of_int (trunc x))) (Fin (of_int (trunc y)))"
    and "0 \<le> trunc y \<Longrightarrow> trunc y < 2 ^ 64 \<Longrightarrow>
      bitmask_shr ex (Fin x) (Fin y) = bitmask_shr ex (Fin (of_int (trunc x))) (Fin (of_int (trunc y)))"
  using x
  by (simp_all add: bitmask_not_def bitmask_xor_def bitmask_and_def bitmask_or_def bitmask_shl_def
      bitmask_shr_def convertToFloat_def int64_trunc uint64_trunc)

lemma bitmask_or_inexact: "bitmask_or ex (Fin (2 ^ 53)) (Fin 1) = Inr (VNum (Fin (2 ^ 53)))"
proof -
  have "trunc (2 ^ 53) = 2 ^ 53" and "trunc 1 = 1"
    by (simp_all add: trunc_def)
  moreover have "(2 ^ 53 :: int) OR 1 = 2 ^ 53 + 1"
    by simp
  ultimately show ?thesis
    using bitmask_values(4) [where x = "2 ^ 53" and y = 1 and ex = ex] round53_inexact by simp
qed


section \<open>Properties of \<^verbatim>\<open>reflect.DeepEqual\<close>\<close>

lemma DeepEqual_nil_slice:
  "\<not> DeepEqual (VSeq None []) (VSeq (Some a) [])"
  "\<not> DeepEqual (VSeq (Some a) []) (VSeq None [])"
  "DeepEqual (VSeq None []) (VSeq None [])"
  "DeepEqual (VSeq (Some a) []) (VSeq (Some c) [])"
  by simp_all

lemma DeepEqual_nil_map:
  "\<not> DeepEqual (VMap None []) (VMap (Some a) [])"
  "\<not> DeepEqual (VMap (Some a) []) (VMap None [])"
  "DeepEqual (VMap None []) (VMap None [])"
  "DeepEqual (VMap (Some a) []) (VMap (Some c) [])"
  by simp_all

lemma DeepEqual_nil_interface: "DeepEqual VNil b \<longleftrightarrow> b = VNil" "DeepEqual a VNil \<longleftrightarrow> a = VNil"
  by (cases b; simp) (cases a; simp)

lemma DeepEqual_same_slice: "DeepEqual (VSeq p xs) (VSeq p xs)"
  by simp

lemma DeepEqual_NaN:
  "\<not> DeepEqual (VNum NaN) b"
  "\<not> DeepEqual (VSeq (Some 0) [VNum NaN]) (VSeq (Some 1) [VNum NaN])"
  by (cases b; simp) simp

lemma DeepEqual_func: "\<not> DeepEqual (VOpaque h False) b" "\<not> DeepEqual a (VOpaque h False)"
  by (cases b; simp) (cases a; simp)

section \<open>Properties of \<^verbatim>\<open>==\<close> and \<^verbatim>\<open>!=\<close>\<close>

lemma eq_range_iff: "eq_range aa b \<longleftrightarrow> (\<exists>x \<in> set aa. DeepEqual x b)"
  by (induction aa) auto

lemma ne_range_iff: "ne_range aa b \<longleftrightarrow> (\<exists>x \<in> set aa. \<not> DeepEqual x b)"
  by (induction aa) auto

lemma base_eq_seq: "base_eq (VSeq p aa) b = Inr (VBool (\<exists>x \<in> set aa. DeepEqual x b))"
  by (simp add: base_eq_def eq_range_iff)

lemma base_ne_seq: "base_ne (VSeq p aa) b = Inr (VBool (\<exists>x \<in> set aa. \<not> DeepEqual x b))"
  by (simp add: base_ne_def ne_range_iff)

lemma base_eq_other:
  "(\<And>p aa. a \<noteq> VSeq p aa) \<Longrightarrow> base_eq a b = Inr (VBool (DeepEqual a b))"
  by (cases a) (auto simp: base_eq_def)

lemma base_ne_other:
  "(\<And>p aa. a \<noteq> VSeq p aa) \<Longrightarrow> base_ne a b = Inr (VBool (\<not> DeepEqual a b))"
  by (cases a) (auto simp: base_ne_def)

text \<open>
  C1, as the code has it. For Base's \<^verbatim>\<open>==\<close> and \<^verbatim>\<open>!=\<close> and every pair of values
  \<open>(a, b)\<close>: if \<open>a\<close> is an ordered sequence (a \<^verbatim>\<open>[]interface{}\<close>, nil or not), \<^verbatim>\<open>a == b\<close> is
  true iff some element of \<open>a\<close> is deep-equal to \<open>b\<close>, and \<^verbatim>\<open>a != b\<close> is true iff some
  element of \<open>a\<close> is not deep-equal to \<open>b\<close>; if \<open>a\<close> is not an ordered sequence, \<^verbatim>\<open>a == b\<close>
  is the deep equality of \<open>a\<close> and \<open>b\<close> and \<^verbatim>\<open>a != b\<close> is its negation.
\<close>

theorem base_equality:
  "base_eq (VSeq p aa) b = Inr (VBool (\<exists>x \<in> set aa. DeepEqual x b)) \<and>
   base_ne (VSeq p aa) b = Inr (VBool (\<exists>x \<in> set aa. \<not> DeepEqual x b)) \<and>
   ((\<forall>q xs. a \<noteq> VSeq q xs) \<longrightarrow>
      base_eq a b = Inr (VBool (DeepEqual a b)) \<and>
      base_ne a b = Inr (VBool (\<not> DeepEqual a b)))"
  using base_eq_seq [of p aa b] base_ne_seq [of p aa b] base_eq_other [of a b]
    base_ne_other [of a b]
  by simp

text \<open>
  At the sequence \<^verbatim>\<open>[1, 2]\<close> and 2; at the sequence that holds the nil slice and the empty
  slice, which is not deep-equal to it; at the nil slice on both sides, over which neither
  loop iterates; at two strings; and at a func value, which is not deep-equal to itself.
\<close>

theorem base_equality_witness:
  "base_eq (VSeq (Some 0) [VNum (Fin 1), VNum (Fin 2)]) (VNum (Fin 2)) = Inr (VBool True) \<and>
   base_ne (VSeq (Some 0) [VNum (Fin 1), VNum (Fin 2)]) (VNum (Fin 2)) = Inr (VBool True) \<and>
   base_eq (VSeq (Some 0) [VSeq None []]) (VSeq (Some 1) []) = Inr (VBool False) \<and>
   base_ne (VSeq (Some 0) [VSeq None []]) (VSeq (Some 1) []) = Inr (VBool True) \<and>
   base_eq (VSeq None []) (VSeq None []) = Inr (VBool False) \<and>
   base_ne (VSeq None []) (VSeq None []) = Inr (VBool False) \<and>
   base_eq (VStr ''a'') (VStr ''a'') = Inr (VBool True) \<and>
   base_ne (VStr ''a'') (VStr ''a'') = Inr (VBool False) \<and>
   base_eq (VOpaque 0 False) (VOpaque 0 False) = Inr (VBool False) \<and>
   base_ne (VOpaque 0 False) (VOpaque 0 False) = Inr (VBool True)"
  using base_equality [of "Some 0" "[VNum (Fin 1), VNum (Fin 2)]" "VNum (Fin 2)" "VNil"]
    base_equality [of "Some 0" "[VSeq None []]" "VSeq (Some 1) []" "VNil"]
    base_equality [of None "[]" "VSeq None []" "VNil"]
    base_equality [of None "[]" "VStr ''a''" "VStr ''a''"]
    base_equality [of None "[]" "VOpaque 0 False" "VOpaque 0 False"]
  by simp

text \<open>
  C1 as the spec states it gives \<^verbatim>\<open>!=\<close> the rule of \<^verbatim>\<open>==\<close>: true iff some element of the
  left sequence is deep-equal to the right value. On the sequence \<^verbatim>\<open>[1]\<close> and the value 1
  the element is deep-equal to the value, \<^verbatim>\<open>==\<close> is true, and \<^verbatim>\<open>!=\<close> is false.
\<close>

theorem base_ne_rule_counterexample:
  "DeepEqual (VNum (Fin 1)) (VNum (Fin 1)) \<and>
   base_eq (VSeq (Some 0) [VNum (Fin 1)]) (VNum (Fin 1)) = Inr (VBool True) \<and>
   base_ne (VSeq (Some 0) [VNum (Fin 1)]) (VNum (Fin 1)) = Inr (VBool False)"
  by (simp add: base_eq_def base_ne_def)

text \<open>
  C9. In Base, \<^verbatim>\<open>!=\<close> with an ordered sequence on the left is not the negation of
  \<^verbatim>\<open>==\<close>: \<^verbatim>\<open>a != b\<close> is true iff at least one element of \<open>a\<close> is not deep-equal to \<open>b\<close>.
  So for a sequence with an element deep-equal to \<open>b\<close> and an element that is not, both
  \<^verbatim>\<open>a == b\<close> and \<^verbatim>\<open>a != b\<close> are true; and for a non-empty sequence whose elements are
  all deep-equal to \<open>b\<close>, \<^verbatim>\<open>a == b\<close> is true and \<^verbatim>\<open>a != b\<close> is false.
\<close>

theorem base_ne_sequence:
  "base_ne (VSeq p aa) b = Inr (VBool (\<exists>x \<in> set aa. \<not> DeepEqual x b)) \<and>
   ((\<exists>x \<in> set aa. DeepEqual x b) \<and> (\<exists>y \<in> set aa. \<not> DeepEqual y b) \<longrightarrow>
      base_eq (VSeq p aa) b = Inr (VBool True) \<and> base_ne (VSeq p aa) b = Inr (VBool True)) \<and>
   (aa \<noteq> [] \<and> (\<forall>x \<in> set aa. DeepEqual x b) \<longrightarrow>
      base_eq (VSeq p aa) b = Inr (VBool True) \<and> base_ne (VSeq p aa) b = Inr (VBool False))"
proof -
  have "aa \<noteq> [] \<Longrightarrow> \<forall>x \<in> set aa. DeepEqual x b \<Longrightarrow> \<exists>x \<in> set aa. DeepEqual x b"
    by (cases aa) auto
  then show ?thesis
    by (auto simp: base_eq_seq base_ne_seq)
qed

text \<open>
  At the sequences \<^verbatim>\<open>["a", "b"]\<close> and \<^verbatim>\<open>["a", "a"]\<close> and the string \<^verbatim>\<open>"a"\<close>; and at the
  sequence of the nil slice and an empty slice and another empty slice, which is
  deep-equal to the second element and not to the first.
\<close>

theorem base_ne_sequence_witness:
  "base_eq (VSeq (Some 0) [VStr ''a'', VStr ''b'']) (VStr ''a'') = Inr (VBool True) \<and>
   base_ne (VSeq (Some 0) [VStr ''a'', VStr ''b'']) (VStr ''a'') = Inr (VBool True) \<and>
   base_eq (VSeq (Some 0) [VStr ''a'', VStr ''a'']) (VStr ''a'') = Inr (VBool True) \<and>
   base_ne (VSeq (Some 0) [VStr ''a'', VStr ''a'']) (VStr ''a'') = Inr (VBool False) \<and>
   base_eq (VSeq (Some 0) [VSeq None [], VSeq (Some 1) []]) (VSeq (Some 2) []) = Inr (VBool True) \<and>
   base_ne (VSeq (Some 0) [VSeq None [], VSeq (Some 1) []]) (VSeq (Some 2) []) = Inr (VBool True)"
  using base_ne_sequence [of "Some 0" "[VStr ''a'', VStr ''b'']" "VStr ''a''"]
    base_ne_sequence [of "Some 0" "[VStr ''a'', VStr ''a'']" "VStr ''a''"]
    base_ne_sequence [of "Some 0" "[VSeq None [], VSeq (Some 1) []]" "VSeq (Some 2) []"]
  by simp

section \<open>Properties of \<^verbatim>\<open>??\<close>\<close>

text \<open>
  C4. For every pair of values \<open>(a, b)\<close>: \<^verbatim>\<open>a ?? b\<close> returns \<open>a\<close> whenever \<open>a\<close> is neither the
  boolean false nor nil, and then the right operand is never evaluated: the predicate
  registered for \<^verbatim>\<open>??\<close> reports stop, and the infix node of Full returns \<open>a\<close> in the
  state the left operand has left, whatever the right operand is. It returns \<open>b\<close>
  whenever \<open>a\<close> is the boolean false or nil.
\<close>

theorem coalesce_value:
  "(a \<noteq> VBool False \<and> a \<noteq> VNil \<longrightarrow>
      coalesce a b = Inr a \<and> coalesce_shortcircuit a = (a, True) \<and>
      (left p s = (Inr a, s1) \<longrightarrow> InfixOp ex (full ex) ''??'' left right p s = (Inr a, s1))) \<and>
   (a = VBool False \<or> a = VNil \<longrightarrow>
      coalesce a b = Inr b \<and> coalesce_shortcircuit a = (a, False) \<and>
      (left p s = (Inr a, s1) \<and> right p s1 = (Inr b, s2) \<longrightarrow>
         InfixOp ex (full ex) ''??'' left right p s = (Inr b, s2)))"
proof -
  have sc: "shortcircuits (full ex) ''??'' = Some coalesce_shortcircuit"
    by (simp add: shortcircuits_full)
  have stop: "InfixOp ex (full ex) ''??'' left right p s = (Inr a, s1)"
    if "a \<noteq> VBool False" "a \<noteq> VNil" "left p s = (Inr a, s1)"
    using that by (intro InfixOp_stop [OF _ sc]) (simp_all add: coalesce_shortcircuit_def)
  have continue: "InfixOp ex (full ex) ''??'' left right p s = (Inr b, s2)"
    if "a = VBool False \<or> a = VNil" "left p s = (Inr a, s1)" "right p s1 = (Inr b, s2)"
  proof -
    have "InfixOp ex (full ex) ''??'' left right p s = (apply_infix ex (full ex) ''??'' a b, s2)"
      using that by (intro InfixOp_continue [OF _ sc]) (auto simp: coalesce_shortcircuit_def)
    with that(1) show ?thesis
      by (auto simp: apply_infix_coalesce coalesce_def)
  qed
  show ?thesis
    using stop continue by (auto simp: coalesce_def coalesce_shortcircuit_def)
qed

theorem coalesce_value_witness:
  "coalesce (VNum (Fin 1)) (VNum (Fin 2)) = Inr (VNum (Fin 1)) \<and>
   InfixOp sample_externals (full sample_externals) ''??'' (Const (VNum (Fin 1))) (counted (VNum (Fin 2))) VNil 0 =
     (Inr (VNum (Fin 1)), 0) \<and>
   coalesce VNil (VNum (Fin 2)) = Inr (VNum (Fin 2)) \<and>
   InfixOp sample_externals (full sample_externals) ''??'' (Const VNil) (counted (VNum (Fin 2))) VNil 0 =
     (Inr (VNum (Fin 2)), 1)"
  using coalesce_value [of "VNum (Fin 1)" "VNum (Fin 2)" "Const (VNum (Fin 1))" VNil 0 0
      sample_externals "counted (VNum (Fin 2))" 1]
    coalesce_value [of VNil "VNum (Fin 2)" "Const VNil" VNil 0 0
      sample_externals "counted (VNum (Fin 2))" 1]
  by (simp add: Const_def counted_def)

section \<open>Short-circuit evaluation\<close>

text \<open>
  C5. For every right-operand computation \<open>f\<close>: the infix nodes of Full for \<^verbatim>\<open>&&\<close> on a
  left operand that is false, for \<^verbatim>\<open>||\<close> on one that is true, and for \<^verbatim>\<open>??\<close> on one
  that is neither false nor nil return (false, true, the left value) in the state the
  left operand has left: \<open>f\<close> is not invoked. A ternary evaluates the branch its condition
  selects, and only that one. The same on expressions (the tokens of
  \<^verbatim>\<open>false && f()\<close>, \<^verbatim>\<open>true || f()\<close>, \<^verbatim>\<open>1 ?? f()\<close>, \<^verbatim>\<open>true ? f(1) : f(2)\<close> and
  \<^verbatim>\<open>false ? f(1) : f(2)\<close>) in Full extended with an arbitrary host function \<open>f\<close>: the
  first three leave the state of the host as it is, the ternaries are one call of \<open>f\<close>.
\<close>

theorem short_circuit:
  "(left p s = (Inr (VBool False), s1) \<longrightarrow>
      InfixOp ex (full ex) ''&&'' left f p s = (Inr (VBool False), s1)) \<and>
   (left p s = (Inr (VBool True), s1) \<longrightarrow>
      InfixOp ex (full ex) ''||'' left f p s = (Inr (VBool True), s1)) \<and>
   (left p s = (Inr x, s1) \<and> x \<noteq> VBool False \<and> x \<noteq> VNil \<longrightarrow>
      InfixOp ex (full ex) ''??'' left f p s = (Inr x, s1)) \<and>
   (c p s = (Inr v, s1) \<and> convertToBool v = Some True \<longrightarrow> Ternary c t e p s = t p s1) \<and>
   (c p s = (Inr v, s1) \<and> convertToBool v = Some False \<longrightarrow> Ternary c t e p s = e p s1) \<and>
   evaluate_tokens ex (NewLanguage [full ex, Function ''f'' fn])
     [TIdent ''false'', TPunct CHR ''&'', TPunct CHR ''&'',
      TIdent ''f'', TPunct CHR ''('', TPunct CHR '')'', TEOF] p s = (Inr (VBool False), s) \<and>
   evaluate_tokens ex (NewLanguage [full ex, Function ''f'' fn])
     [TIdent ''true'', TPunct CHR ''|'', TPunct CHR ''|'',
      TIdent ''f'', TPunct CHR ''('', TPunct CHR '')'', TEOF] p s = (Inr (VBool True), s) \<and>
   evaluate_tokens ex (NewLanguage [full ex, Function ''f'' fn])
     [TInt ''1'', TPunct CHR ''?'', TPunct CHR ''?'',
      TIdent ''f'', TPunct CHR ''('', TPunct CHR '')'', TEOF] p s = (Inr (VNum (Fin 1)), s) \<and>
   evaluate_tokens ex (NewLanguage [full ex, Function ''f'' fn])
     [TIdent ''true'', TPunct CHR ''?'', TIdent ''f'', TPunct CHR ''('', TInt ''1'', TPunct CHR '')'',
      TPunct CHR '':'', TIdent ''f'', TPunct CHR ''('', TInt ''2'', TPunct CHR '')'', TEOF] p s =
     fn [VNum (Fin 1)] s \<and>
   evaluate_tokens ex (NewLanguage [full ex, Function ''f'' fn])
     [TIdent ''false'', TPunct CHR ''?'', TIdent ''f'', TPunct CHR ''('', TInt ''1'', TPunct CHR '')'',
      TPunct CHR '':'', TIdent ''f'', TPunct CHR ''('', TInt ''2'', TPunct CHR '')'', TEOF] p s =
     fn [VNum (Fin 2)] s"
proof -
  note run = evaluate_tokens_def parser fields_with_function tables_full nodes
  have 1: "evaluate_tokens ex (NewLanguage [full ex, Function ''f'' fn])
     [TIdent ''false'', TPunct CHR ''&'', TPunct CHR ''&'',
      TIdent ''f'', TPunct CHR ''('', TPunct CHR '')'', TEOF] p s = (Inr (VBool False), s)"
    by (simp add: run and_shortcircuit_def)
  have 2: "evaluate_tokens ex (NewLanguage [full ex, Function ''f'' fn])
     [TIdent ''true'', TPunct CHR ''|'', TPunct CHR ''|'',
      TIdent ''f'', TPunct CHR ''('', TPunct CHR '')'', TEOF] p s = (Inr (VBool True), s)"
    by (simp add: run or_shortcircuit_def)
  have 3: "evaluate_tokens ex (NewLanguage [full ex, Function ''f'' fn])
     [TInt ''1'', TPunct CHR ''?'', TPunct CHR ''?'',
      TIdent ''f'', TPunct CHR ''('', TPunct CHR '')'', TEOF] p s = (Inr (VNum (Fin 1)), s)"
    by (simp add: run coalesce_shortcircuit_def)
  have 4: "evaluate_tokens ex (NewLanguage [full ex, Function ''f'' fn])
     [TIdent ''true'', TPunct CHR ''?'', TIdent ''f'', TPunct CHR ''('', TInt ''1'', TPunct CHR '')'',
      TPunct CHR '':'', TIdent ''f'', TPunct CHR ''('', TInt ''2'', TPunct CHR '')'', TEOF] p s =
     fn [VNum (Fin 1)] s"
    by (simp add: run)
  have 5: "evaluate_tokens ex (NewLanguage [full ex, Function ''f'' fn])
     [TIdent ''false'', TPunct CHR ''?'', TIdent ''f'', TPunct CHR ''('', TInt ''1'', TPunct CHR '')'',
      TPunct CHR '':'', TIdent ''f'', TPunct CHR ''('', TInt ''2'', TPunct CHR '')'', TEOF] p s =
     fn [VNum (Fin 2)] s"
    by (simp add: run)
  show ?thesis
    using 1 2 3 4 5 and_stops [of left p s s1 ex f] or_stops [of left p s s1 ex f]
      coalesce_stops [of left p s x s1 ex f] Ternary_then [of c p s v s1 t e]
      Ternary_else [of c p s v s1 t e]
    by blast
qed

theorem short_circuit_witness:
  "InfixOp sample_externals (full sample_externals) ''&&'' (Const (VBool False)) (counted VNil) VNil 0 =
     (Inr (VBool False), 0) \<and>
   InfixOp sample_externals (full sample_externals) ''||'' (Const (VBool True)) (counted VNil) VNil 0 =
     (Inr (VBool True), 0) \<and>
   InfixOp sample_externals (full sample_externals) ''??'' (Const (VStr ''a'')) (counted VNil) VNil 0 =
     (Inr (VStr ''a''), 0) \<and>
   Ternary (Const (VBool True)) (counted (VStr ''then'')) (counted (VStr ''else'')) VNil 0 =
     (Inr (VStr ''then''), 1) \<and>
   Ternary (Const (VBool False)) (counted (VStr ''then'')) (counted (VStr ''else'')) VNil 0 =
     (Inr (VStr ''else''), 1)"
  using
    short_circuit [where left = "Const (VBool False)" and p = VNil and s = 0 and ?s1.0 = 0
      and ex = sample_externals and f = "counted VNil" and c = "Const (VBool True)"
      and v = "VBool True" and t = "counted (VStr ''then'')" and e = "counted (VStr ''else'')"]
    short_circuit [where left = "Const (VBool True)" and p = VNil and s = 0 and ?s1.0 = 0
      and ex = sample_externals and f = "counted VNil" and c = "Const (VBool False)"
      and v = "VBool False" and t = "counted (VStr ''then'')" and e = "counted (VStr ''else'')"]
    short_circuit [where left = "Const (VStr ''a'')" and p = VNil and s = 0 and ?s1.0 = 0
      and ex = sample_externals and f = "counted VNil" and x = "VStr ''a''"]
  by (simp add: Const_def counted_def convertToBool_def)

section \<open>Associativity\<close>



section \<open>The precedence table\<close>



section \<open>Union of languages\<close>

text \<open>
  C8. The union of languages (one step of the fold of \<^verbatim>\<open>NewLanguage\<close>) is associative and
  right-biased: for all languages \<open>A\<close> and \<open>B\<close> and every key of every table, if \<open>B\<close> has an
  entry for the key then the union has the entry of \<open>B\<close>; the set of operator symbols of
  the union is the union of the two sets; and the union of \<open>A\<close> with itself is \<open>A\<close>.
\<close>

theorem language_union:
  "merge_language (merge_language A B) C = merge_language A (merge_language B C) \<and>
   (prefixes B k1 = Some e1 \<longrightarrow> prefixes (merge_language A B) k1 = Some e1) \<and>
   (number_operators B k2 = Some e2 \<longrightarrow> number_operators (merge_language A B) k2 = Some e2) \<and>
   (bool_operators B k3 = Some e3 \<longrightarrow> bool_operators (merge_language A B) k3 = Some e3) \<and>
   (text_operators B k4 = Some e4 \<longrightarrow> text_operators (merge_language A B) k4 = Some e4) \<and>
   (arbitrary_operators B k5 = Some e5 \<longrightarrow> arbitrary_operators (merge_language A B) k5 = Some e5) \<and>
   (eval_operators B k6 = Some e6 \<longrightarrow> eval_operators (merge_language A B) k6 = Some e6) \<and>
   (shortcircuits B k7 = Some e7 \<longrightarrow> shortcircuits (merge_language A B) k7 = Some e7) \<and>
   (precedences B k8 = Some e8 \<longrightarrow> precedences (merge_language A B) k8 = Some e8) \<and>
   (postfixes B k9 = Some e9 \<longrightarrow> postfixes (merge_language A B) k9 = Some e9) \<and>
   symbols (merge_language A B) = symbols A \<union> symbols B \<and>
   merge_language A A = A \<and>
   NewLanguage [A, B] = merge_language A B \<and>
   NewLanguage (bases @ [B]) = merge_language (NewLanguage bases) B"
  by (simp add: merge_language_assoc merge_language_same NewLanguage_snoc) (simp add: NewLanguage_def)

theorem language_union_witness:
  "prefixes (merge_language (Constant ''date'' VNil) (full sample_externals)) (KLit ''date'') =
     Some (FunctionValue (\<lambda>arguments s. (date sample_externals arguments, s))) \<and>
   number_operators (merge_language (InfixNumberOperator ''^'' (bitmask_or sample_externals)) (full sample_externals)) ''^'' =
     Some (bitmask_xor sample_externals) \<and>
   precedences (merge_language (Precedence ''**'' 7) (full sample_externals)) ''**'' = Some 200 \<and>
   shortcircuits (merge_language (InfixShortCircuit ''&&'' or_shortcircuit) (full sample_externals)) ''&&'' =
     Some and_shortcircuit \<and>
   arbitrary_operators (merge_language (InfixOperator ''=='' base_ne) (full sample_externals)) ''=='' =
     Some base_eq \<and>
   postfixes (merge_language (PostfixOperator ''?'' (\<lambda>sub left rest. Inl OutOfFuel)) (full sample_externals)) ''?'' =
     Some parseIf \<and>
   bool_operators (merge_language (full sample_externals) (InfixBoolOperator ''&&'' (\<lambda>a b. Inr VNil))) ''&&'' =
     Some (\<lambda>a b. Inr VNil) \<and>
   text_operators (merge_language (full sample_externals) (InfixTextOperator ''+'' (\<lambda>a b. Inr VNil))) ''+'' =
     Some (\<lambda>a b. Inr VNil) \<and>
   eval_operators (merge_language (full sample_externals) (InfixEvalOperator ''=~'' (\<lambda>a b. Inr a))) ''=~'' =
     Some (\<lambda>a b. Inr a)"
  using
    language_union [where B = "full sample_externals" and A = "Constant ''date'' VNil"
      and ?k1.0 = "KLit ''date''" and ?e1.0 = "FunctionValue (\<lambda>arguments s. (date sample_externals arguments, s))"]
    language_union [where B = "full sample_externals" and A = "InfixNumberOperator ''^'' (bitmask_or sample_externals)"
      and ?k2.0 = "''^''" and ?e2.0 = "bitmask_xor sample_externals"]
    language_union [where B = "full sample_externals" and A = "Precedence ''**'' 7"
      and ?k8.0 = "''**''" and ?e8.0 = 200]
    language_union [where B = "full sample_externals" and A = "InfixShortCircuit ''&&'' or_shortcircuit"
      and ?k7.0 = "''&&''" and ?e7.0 = and_shortcircuit]
    language_union [where B = "full sample_externals" and A = "InfixOperator ''=='' base_ne"
      and ?k5.0 = "''==''" and ?e5.0 = base_eq]
    language_union [where B = "full sample_externals" and A = "PostfixOperator ''?'' (\<lambda>sub left rest. Inl OutOfFuel)"
      and ?k9.0 = "''?''" and ?e9.0 = parseIf]
    language_union [where A = "full sample_externals" and B = "InfixBoolOperator ''&&'' (\<lambda>a b. Inr VNil)"
      and ?k3.0 = "''&&''" and ?e3.0 = "\<lambda>a b. Inr VNil"]
    language_union [where A = "full sample_externals" and B = "InfixTextOperator ''+'' (\<lambda>a b. Inr VNil)"
      and ?k4.0 = "''+''" and ?e4.0 = "\<lambda>a b. Inr VNil"]
    language_union [where A = "full sample_externals" and B = "InfixEvalOperator ''=~'' (\<lambda>a b. Inr a)"
      and ?k6.0 = "''=~''" and ?e6.0 = "\<lambda>a b. Inr a"]
  by (simp add: tables_full builders)

section \<open>The language of \<^verbatim>\<open>Evaluate\<close>\<close>

text \<open>
  C2. \<^verbatim>\<open>Evaluate(expression, parameter, extensions...)\<close> evaluates under Full when there
  are no extensions, and otherwise under the union of Full with the extensions in the
  given order. Full is the union of Arithmetic, Bitmask, Text, PropositionalLogic and
  JSON, in this order, extended with the operator \<^verbatim>\<open>in\<close>, the operator \<^verbatim>\<open>??\<close> with its
  short-circuit predicate, the postfix \<^verbatim>\<open>?\<close> and the function \<^verbatim>\<open>date\<close>, none of which
  an earlier part overrides.
\<close>

theorem Evaluate_language:
  "Evaluate ex expression parameter opts = language_Evaluate ex (Full ex opts) expression parameter \<and>
   Evaluate ex expression parameter [] = language_Evaluate ex (full ex) expression parameter \<and>
   (opts \<noteq> [] \<longrightarrow>
      Evaluate ex expression parameter opts =
        language_Evaluate ex (foldl merge_language (full ex) opts) expression parameter) \<and>
   full ex =
     foldl merge_language
       (merge_language (merge_language (merge_language (merge_language
          (arithmetic ex) (bitmask ex)) (text_language ex)) (propositionalLogic ex)) (ljson ex))
       [InfixOperator ''in'' inArray,
        InfixShortCircuit ''??'' coalesce_shortcircuit,
        InfixOperator ''??'' coalesce,
        PostfixOperator ''?'' parseIf,
        Function ''date'' (\<lambda>arguments s. (date ex arguments, s))] \<and>
   arbitrary_operators (full ex) ''in'' = Some inArray \<and>
   shortcircuits (full ex) ''??'' = Some coalesce_shortcircuit \<and>
   arbitrary_operators (full ex) ''??'' = Some coalesce \<and>
   postfixes (full ex) ''?'' = Some parseIf \<and>
   prefixes (full ex) (KLit ''date'') = Some (FunctionValue (\<lambda>arguments s. (date ex arguments, s)))"
proof -
  have "Evaluate ex expression parameter opts =
        language_Evaluate ex (foldl merge_language (full ex) opts) expression parameter"
    if "opts \<noteq> []"
    using that by (simp add: Evaluate_def NewLanguage_append del: append.simps)
  moreover have "Evaluate ex expression parameter [] = language_Evaluate ex (full ex) expression parameter"
    by (simp add: Evaluate_def)
  moreover have "Evaluate ex expression parameter opts =
      language_Evaluate ex (Full ex opts) expression parameter"
    by (simp add: Evaluate_def Full_def del: append.simps)
  moreover have "full ex =
     foldl merge_language
       (merge_language (merge_language (merge_language (merge_language
          (arithmetic ex) (bitmask ex)) (text_language ex)) (propositionalLogic ex)) (ljson ex))
       [InfixOperator ''in'' inArray,
        InfixShortCircuit ''??'' coalesce_shortcircuit,
        InfixOperator ''??'' coalesce,
        PostfixOperator ''?'' parseIf,
        Function ''date'' (\<lambda>arguments s. (date ex arguments, s))]"
    by (simp add: full_def NewLanguage_def)
  moreover have "arbitrary_operators (full ex) ''in'' = Some inArray"
    and "shortcircuits (full ex) ''??'' = Some coalesce_shortcircuit"
    and "arbitrary_operators (full ex) ''??'' = Some coalesce"
    and "postfixes (full ex) ''?'' = Some parseIf"
    and "prefixes (full ex) (KLit ''date'') = Some (FunctionValue (\<lambda>arguments s. (date ex arguments, s)))"
    by (simp_all add: tables_full)
  ultimately show ?thesis
    by blast
qed

theorem Evaluate_language_witness:
  "Evaluate sample_externals ''1'' VNil [Precedence ''+'' 7] =
     language_Evaluate sample_externals (merge_language (full sample_externals) (Precedence ''+'' 7)) ''1'' VNil"
proof -
  have "[Precedence ''+'' 7 :: nat language] \<noteq> []"
    by simp
  then have "Evaluate sample_externals ''1'' VNil [Precedence ''+'' 7] =
      language_Evaluate sample_externals
        (foldl merge_language (full sample_externals) [Precedence ''+'' 7]) ''1'' VNil"
    using Evaluate_language [of sample_externals "''1''" VNil "[Precedence ''+'' 7]"]
    by blast
  then show ?thesis
    by simp
qed

section \<open>The function \<^verbatim>\<open>date\<close>\<close>

text \<open>
  C6. For every string \<open>s\<close>, \<^verbatim>\<open>date(s)\<close> tries a fixed list of fourteen layouts in order:
  ANSIC, Unix date, Ruby date, Kitchen, RFC3339, RFC3339 with nanoseconds, then the day
  alone, the day with minutes, with seconds, with seconds and time zone, and the forms
  with \<^verbatim>\<open>T\<close> and the time zone for the hour, the minutes, the seconds and the nanoseconds.
  It returns what the first layout that parses \<open>s\<close> gives (every layout before it having
  failed), and it returns a function error exactly when no layout parses \<open>s\<close>.
\<close>

theorem date_first_format:
  "date_formats =
     [''Mon Jan _2 15:04:05 2006'',
      ''Mon Jan _2 15:04:05 MST 2006'',
      ''Mon Jan 02 15:04:05 -0700 2006'',
      ''3:04PM'',
      ''2006-01-02T15:04:05Z07:00'',
      ''2006-01-02T15:04:05.999999999Z07:00'',
      ''2006-01-02'',
      ''2006-01-02 15:04'',
      ''2006-01-02 15:04:05'',
      ''2006-01-02 15:04:05-07:00'',
      ''2006-01-02T15Z0700'',
      ''2006-01-02T15:04Z0700'',
      ''2006-01-02T15:04:05Z0700'',
      ''2006-01-02T15:04:05.999999999Z0700''] \<and>
   (date_formats = before @ format # after \<and>
    (\<forall>f \<in> set before. ParseInLocation ex f s = None) \<and>
    ParseInLocation ex format s = Some ret \<longrightarrow>
      date ex [VStr s] = Inr (VTime ret)) \<and>
   ((\<forall>f \<in> set date_formats. ParseInLocation ex f s = None) \<longrightarrow>
      date ex [VStr s] = Inl (FunctionError (''date() could not parse '' @ s))) \<and>
   (\<exists>e. date ex [VStr s] = Inl (FunctionError e)) = (\<forall>f \<in> set date_formats. ParseInLocation ex f s = None)"
proof -
  have formats: "date_formats =
     [''Mon Jan _2 15:04:05 2006'',
      ''Mon Jan _2 15:04:05 MST 2006'',
      ''Mon Jan 02 15:04:05 -0700 2006'',
      ''3:04PM'',
      ''2006-01-02T15:04:05Z07:00'',
      ''2006-01-02T15:04:05.999999999Z07:00'',
      ''2006-01-02'',
      ''2006-01-02 15:04'',
      ''2006-01-02 15:04:05'',
      ''2006-01-02 15:04:05-07:00'',
      ''2006-01-02T15Z0700'',
      ''2006-01-02T15:04Z0700'',
      ''2006-01-02T15:04:05Z0700'',
      ''2006-01-02T15:04:05.999999999Z0700'']"
    by (simp add: date_formats_def ANSIC_def UnixDate_def RubyDate_def Kitchen_def RFC3339_def
        RFC3339Nano_def)
  have first: "date ex [VStr s] = Inr (VTime ret)"
    if "date_formats = before @ format # after"
      "\<forall>f \<in> set before. ParseInLocation ex f s = None"
      "ParseInLocation ex format s = Some ret"
    using date_range_first [where parse = "ParseInLocation ex", OF that] by (simp add: date_def)
  have none: "date ex [VStr s] = Inl (FunctionError (''date() could not parse '' @ s))"
    if "\<forall>f \<in> set date_formats. ParseInLocation ex f s = None"
    using date_range_none [where parse = "ParseInLocation ex", OF that] by (simp add: date_def)
  have only: "\<forall>f \<in> set date_formats. ParseInLocation ex f s = None"
    if "date ex [VStr s] = Inl (FunctionError e)" for e
  proof (rule ccontr)
    assume "\<not> (\<forall>f \<in> set date_formats. ParseInLocation ex f s = None)"
    then have "find (\<lambda>format. ParseInLocation ex format s \<noteq> None) date_formats \<noteq> None"
      by (auto simp: find_None_iff)
    then obtain format where "find (\<lambda>format. ParseInLocation ex format s \<noteq> None) date_formats = Some format"
      by auto
    moreover from this have "ParseInLocation ex format s \<noteq> None"
      by (auto simp: find_Some_iff)
    ultimately have "date_range (ParseInLocation ex) date_formats s \<noteq> None"
      by (simp add: date_range_find)
    with that show False
      by (auto simp: date_def split: option.splits)
  qed
  from formats first none only show ?thesis
    by blast
qed

theorem date_first_format_witness:
  "date sample_externals [VStr ''1970-01-01''] = Inr (VTime 0) \<and>
   date sample_externals [VStr ''yesterday''] = Inl (FunctionError ''date() could not parse yesterday'')"
proof -
  have parse: "ParseInLocation sample_externals =
      (\<lambda>format lit. if format = ''2006-01-02'' \<and> lit = ''1970-01-01'' then Some 0 else None)"
    by (simp add: sample_externals_def)
  have split: "date_formats =
      [ANSIC, UnixDate, RubyDate, Kitchen, RFC3339, RFC3339Nano] @ ''2006-01-02'' #
      [''2006-01-02 15:04'', ''2006-01-02 15:04:05'', ''2006-01-02 15:04:05-07:00'',
       ''2006-01-02T15Z0700'', ''2006-01-02T15:04Z0700'', ''2006-01-02T15:04:05Z0700'',
       ''2006-01-02T15:04:05.999999999Z0700'']"
    by (simp add: date_formats_def)
  have before: "\<forall>f \<in> set [ANSIC, UnixDate, RubyDate, Kitchen, RFC3339, RFC3339Nano].
      ParseInLocation sample_externals f ''1970-01-01'' = None"
    by (simp add: parse ANSIC_def UnixDate_def RubyDate_def Kitchen_def RFC3339_def RFC3339Nano_def)
  have hit: "ParseInLocation sample_externals ''2006-01-02'' ''1970-01-01'' = Some 0"
    by (simp add: parse)
  have none: "\<forall>f \<in> set date_formats. ParseInLocation sample_externals f ''yesterday'' = None"
    by (simp add: parse)
  have 1: "date sample_externals [VStr ''1970-01-01''] = Inr (VTime 0)"
    using date_first_format [of "[ANSIC, UnixDate, RubyDate, Kitchen, RFC3339, RFC3339Nano]"
        "''2006-01-02''" _ sample_externals "''1970-01-01''" 0] split before hit
    by blast
  have 2: "date sample_externals [VStr ''yesterday''] =
      Inl (FunctionError (''date() could not parse '' @ ''yesterday''))"
    using date_first_format [of "[]" "[]" "[]" sample_externals "''yesterday''" 0] none
    by blast
  from 1 2 show ?thesis
    by simp
qed

section \<open>The operators of Bitmask on numbers\<close>

text \<open>
  C10. Every Bitmask operator (\<^verbatim>\<open>^\<close>, \<^verbatim>\<open>&\<close>, \<^verbatim>\<open>|\<close>, \<^verbatim>\<open><<\<close>, \<^verbatim>\<open>>>\<close> and the prefix \<^verbatim>\<open>~\<close>)
  converts its operands from float64 to int64 by truncation towards zero (the shift
  count to uint64), performs the operation on 64-bit integers and converts the result
  back to float64. For finite operands whose truncation is representable: the result is
  the float64 nearest to the integer that the operation gives on the truncated operands
  (the left shift wrapped to 64 bits); it is the same for the operands and for their
  truncations, so the fractions are discarded; an integer result of magnitude at most
  \<open>2 ^ 53\<close> is returned exactly; and beyond that it need not be: \<^verbatim>\<open>2^53 | 1\<close> is
  \<open>2 ^ 53 + 1\<close> on integers and \<open>2 ^ 53\<close> as a float64.
\<close>

theorem bitmask_operators:
  "trunc x = (if 0 \<le> x then \<lfloor>x\<rfloor> else \<lceil>x\<rceil>) \<and>
   (- (2 ^ 63) \<le> trunc x \<and> trunc x < 2 ^ 63 \<longrightarrow>
      sint (int64 ex (Fin x)) = trunc x \<and>
      bitmask_not ex (VNum (Fin x)) = Inr (VNum (Fin (of_int (round53 (NOT (trunc x)))))) \<and>
      bitmask_not ex (VNum (Fin x)) = bitmask_not ex (VNum (Fin (of_int (trunc x))))) \<and>
   (- (2 ^ 63) \<le> trunc x \<and> trunc x < 2 ^ 63 \<and> - (2 ^ 63) \<le> trunc y \<and> trunc y < 2 ^ 63 \<longrightarrow>
      bitmask_xor ex (Fin x) (Fin y) = Inr (VNum (Fin (of_int (round53 (trunc x XOR trunc y))))) \<and>
      bitmask_and ex (Fin x) (Fin y) = Inr (VNum (Fin (of_int (round53 (trunc x AND trunc y))))) \<and>
      bitmask_or ex (Fin x) (Fin y) = Inr (VNum (Fin (of_int (round53 (trunc x OR trunc y))))) \<and>
      bitmask_xor ex (Fin x) (Fin y) = bitmask_xor ex (Fin (of_int (trunc x))) (Fin (of_int (trunc y))) \<and>
      bitmask_and ex (Fin x) (Fin y) = bitmask_and ex (Fin (of_int (trunc x))) (Fin (of_int (trunc y))) \<and>
      bitmask_or ex (Fin x) (Fin y) = bitmask_or ex (Fin (of_int (trunc x))) (Fin (of_int (trunc y)))) \<and>
   (- (2 ^ 63) \<le> trunc x \<and> trunc x < 2 ^ 63 \<and> 0 \<le> trunc y \<and> trunc y < 2 ^ 64 \<longrightarrow>
      unat (uint64 ex (Fin y)) = nat (trunc y) \<and>
      bitmask_shl ex (Fin x) (Fin y) =
        Inr (VNum (Fin (of_int (round53 (signed_take_bit 63 (push_bit (nat (trunc y)) (trunc x))))))) \<and>
      bitmask_shr ex (Fin x) (Fin y) =
        Inr (VNum (Fin (of_int (round53 (drop_bit (nat (trunc y)) (trunc x)))))) \<and>
      bitmask_shl ex (Fin x) (Fin y) = bitmask_shl ex (Fin (of_int (trunc x))) (Fin (of_int (trunc y))) \<and>
      bitmask_shr ex (Fin x) (Fin y) = bitmask_shr ex (Fin (of_int (trunc x))) (Fin (of_int (trunc y)))) \<and>
   (\<bar>i\<bar> \<le> 2 ^ 53 \<longrightarrow> round53 i = i \<and> float64_of_int64 (word_of_int i) = Fin (of_int i)) \<and>
   (2 ^ 53 :: int) OR 1 = 2 ^ 53 + 1 \<and>
   bitmask_or ex (Fin (2 ^ 53)) (Fin 1) = Inr (VNum (Fin (2 ^ 53)))"
proof (intro conjI impI; (elim conjE)?)
  show "trunc x = (if 0 \<le> x then \<lfloor>x\<rfloor> else \<lceil>x\<rceil>)"
    by (rule trunc_toward_zero)
  show "(2 ^ 53 :: int) OR 1 = 2 ^ 53 + 1"
    by simp
  show "bitmask_or ex (Fin (2 ^ 53)) (Fin 1) = Inr (VNum (Fin (2 ^ 53)))"
    by (rule bitmask_or_inexact)
  show "round53 i = i" if "\<bar>i\<bar> \<le> 2 ^ 53"
    using that by (rule round53_exact)
  show "float64_of_int64 (word_of_int i) = Fin (of_int i)" if "\<bar>i\<bar> \<le> 2 ^ 53"
  proof -
    from that have "- (2 ^ 63) \<le> i" and "i < 2 ^ 63"
      by simp_all
    then have "sint (word_of_int i :: 64 word) = i"
      by (rule sint_word_of_int_64)
    with that show ?thesis
      by (simp add: float64_of_int64_def round53_exact)
  qed
  show "unat (uint64 ex (Fin y)) = nat (trunc y)" if "0 \<le> trunc y" "trunc y < 2 ^ 64"
    using that by (rule unat_uint64)
  assume x: "- (2 ^ 63) \<le> trunc x" "trunc x < 2 ^ 63"
  show "sint (int64 ex (Fin x)) = trunc x"
    using x by (rule sint_int64)
  show "bitmask_not ex (VNum (Fin x)) = Inr (VNum (Fin (of_int (round53 (NOT (trunc x))))))"
    using x by (rule bitmask_values)
  show "bitmask_not ex (VNum (Fin x)) = bitmask_not ex (VNum (Fin (of_int (trunc x))))"
    using x by (rule bitmask_truncated)
  show "bitmask_shl ex (Fin x) (Fin y) =
        Inr (VNum (Fin (of_int (round53 (signed_take_bit 63 (push_bit (nat (trunc y)) (trunc x)))))))"
    if "0 \<le> trunc y" "trunc y < 2 ^ 64"
    using x that by (rule bitmask_values)
  show "bitmask_shr ex (Fin x) (Fin y) =
        Inr (VNum (Fin (of_int (round53 (drop_bit (nat (trunc y)) (trunc x))))))"
    if "0 \<le> trunc y" "trunc y < 2 ^ 64"
    using x that by (rule bitmask_values)
  show "bitmask_shl ex (Fin x) (Fin y) = bitmask_shl ex (Fin (of_int (trunc x))) (Fin (of_int (trunc y)))"
    if "0 \<le> trunc y" "trunc y < 2 ^ 64"
    using x that by (rule bitmask_truncated)
  show "bitmask_shr ex (Fin x) (Fin y) = bitmask_shr ex (Fin (of_int (trunc x))) (Fin (of_int (trunc y)))"
    if "0 \<le> trunc y" "trunc y < 2 ^ 64"
    using x that by (rule bitmask_truncated)
  assume y: "- (2 ^ 63) \<le> trunc y" "trunc y < 2 ^ 63"
  show "bitmask_xor ex (Fin x) (Fin y) = Inr (VNum (Fin (of_int (round53 (trunc x XOR trunc y)))))"
    using x y by (rule bitmask_values)
  show "bitmask_and ex (Fin x) (Fin y) = Inr (VNum (Fin (of_int (round53 (trunc x AND trunc y)))))"
    using x y by (rule bitmask_values)
  show "bitmask_or ex (Fin x) (Fin y) = Inr (VNum (Fin (of_int (round53 (trunc x OR trunc y)))))"
    using x y by (rule bitmask_values)
  show "bitmask_xor ex (Fin x) (Fin y) = bitmask_xor ex (Fin (of_int (trunc x))) (Fin (of_int (trunc y)))"
    using x y by (rule bitmask_truncated)
  show "bitmask_and ex (Fin x) (Fin y) = bitmask_and ex (Fin (of_int (trunc x))) (Fin (of_int (trunc y)))"
    using x y by (rule bitmask_truncated)
  show "bitmask_or ex (Fin x) (Fin y) = bitmask_or ex (Fin (of_int (trunc x))) (Fin (of_int (trunc y)))"
    using x y by (rule bitmask_truncated)
qed

theorem bitmask_operators_witness:
  "bitmask_xor sample_externals (Fin (7 / 2)) (Fin (- (3 / 2))) = Inr (VNum (Fin (- 4))) \<and>
   bitmask_and sample_externals (Fin (7 / 2)) (Fin (- (3 / 2))) = Inr (VNum (Fin 3)) \<and>
   bitmask_or sample_externals (Fin (7 / 2)) (Fin (- (3 / 2))) = Inr (VNum (Fin (- 1))) \<and>
   bitmask_not sample_externals (VNum (Fin (7 / 2))) = Inr (VNum (Fin (- 4))) \<and>
   bitmask_shl sample_externals (Fin (7 / 2)) (Fin (5 / 2)) = Inr (VNum (Fin 12)) \<and>
   bitmask_shr sample_externals (Fin (7 / 2)) (Fin (5 / 2)) = Inr (VNum (Fin 0)) \<and>
   float64_of_int64 (word_of_int (2 ^ 53)) = Fin (2 ^ 53)"
proof -
  have t: "trunc (7 / 2) = 3" "trunc (- (3 / 2)) = - 1" "trunc (5 / 2) = 2"
    by (simp_all add: trunc_def floor_eq_iff)
  have r: "round53 (- 4) = - 4" "round53 3 = 3" "round53 (- 1) = - 1" "round53 12 = 12"
    "round53 0 = 0"
    by (simp_all add: round53_exact)
  have s: "signed_take_bit 63 (12 :: int) = 12"
    by (simp add: signed_take_bit_int_eq_self)
  have x: "- (2 ^ 63) \<le> trunc (7 / 2) \<and> trunc (7 / 2) < 2 ^ 63 \<and>
      - (2 ^ 63) \<le> trunc (- (3 / 2)) \<and> trunc (- (3 / 2)) < 2 ^ 63"
    and y: "- (2 ^ 63) \<le> trunc (7 / 2) \<and> trunc (7 / 2) < 2 ^ 63 \<and>
      0 \<le> trunc (5 / 2) \<and> trunc (5 / 2) < 2 ^ 64"
    and z: "- (2 ^ 63) \<le> trunc (7 / 2) \<and> trunc (7 / 2) < 2 ^ 63"
    by (simp_all add: t)
  have "bitmask_xor sample_externals (Fin (7 / 2)) (Fin (- (3 / 2))) =
      Inr (VNum (Fin (of_int (round53 (trunc (7 / 2) XOR trunc (- (3 / 2)))))))"
    and "bitmask_and sample_externals (Fin (7 / 2)) (Fin (- (3 / 2))) =
      Inr (VNum (Fin (of_int (round53 (trunc (7 / 2) AND trunc (- (3 / 2)))))))"
    and "bitmask_or sample_externals (Fin (7 / 2)) (Fin (- (3 / 2))) =
      Inr (VNum (Fin (of_int (round53 (trunc (7 / 2) OR trunc (- (3 / 2)))))))"
    and "bitmask_not sample_externals (VNum (Fin (7 / 2))) =
      Inr (VNum (Fin (of_int (round53 (NOT (trunc (7 / 2)))))))"
    using bitmask_operators [where x = "7 / 2" and y = "- (3 / 2)" and ex = sample_externals] x z
    by blast+
  moreover have "bitmask_shl sample_externals (Fin (7 / 2)) (Fin (5 / 2)) =
      Inr (VNum (Fin (of_int (round53 (signed_take_bit 63 (push_bit (nat (trunc (5 / 2))) (trunc (7 / 2))))))))"
    and "bitmask_shr sample_externals (Fin (7 / 2)) (Fin (5 / 2)) =
        Inr (VNum (Fin (of_int (round53 (drop_bit (nat (trunc (5 / 2))) (trunc (7 / 2)))))))"
    using bitmask_operators [where x = "7 / 2" and y = "5 / 2" and ex = sample_externals] y
    by blast+
  moreover have "float64_of_int64 (word_of_int (2 ^ 53)) = Fin (of_int (2 ^ 53))"
    using bitmask_operators [where i = "2 ^ 53" and x = 0 and y = 0 and ex = sample_externals]
    by simp
  ultimately show ?thesis
    by (simp add: t r s push_bit_eq_mult drop_bit_eq_div)
qed

end
